theory Spec2Isabelle
  imports Main "HOL-Library.Word"
begin

section \<open>JavaScript values used by js/script.js\<close>

text \<open>
  A JavaScript string is a sequence of UTF-16 code units; \<open>length\<close> counts code units,
  as the \<open>length\<close> property of the source does. ASCII literals of the source are written
  \<open>js ''...''\<close>; other characters are given by their code units.
\<close>

type_synonym code_unit = "16 word"
type_synonym jsstring = "code_unit list"

definition js :: "string \<Rightarrow> jsstring" where
  "js s = map of_char s"

text \<open>
  The code units that ECMAScript calls WhiteSpace or LineTerminator. Both
  \<open>String.prototype.trim\<close> and the regular expression class \<open>\s\<close> use exactly this set.
\<close>

definition isWhiteSpace :: "code_unit \<Rightarrow> bool" where
  "isWhiteSpace c \<longleftrightarrow>
     c \<in> {0x9, 0xA, 0xB, 0xC, 0xD, 0x20, 0xA0, 0x1680, 0x2028, 0x2029, 0x202F, 0x205F,
          0x3000, 0xFEFF}
     \<or> (0x2000 \<le> c \<and> c \<le> 0x200A)"

definition trim :: "jsstring \<Rightarrow> jsstring" where
  "trim s = rev (dropWhile isWhiteSpace (rev (dropWhile isWhiteSpace s)))"

datatype js_error = TypeError | SecurityError | QuotaExceededError | Rejected

text \<open>
  The result of reading a property: \<open>undefined\<close>, a string, or some object or function
  (which is all that truthiness needs to know about it).
\<close>

datatype js_value = Undefined | Str jsstring | Object

fun truthy :: "js_value \<Rightarrow> bool" where
  "truthy Undefined = False"
| "truthy (Str s) = (s \<noteq> [])"
| "truthy Object = True"

text \<open>
  Conversion to a string when a value is stored as text or as an attribute. In this
  program it is only ever applied to own string properties of the CONFIG tables.
\<close>

fun to_text :: "js_value \<Rightarrow> jsstring" where
  "to_text (Str s) = s"
| "to_text Undefined = js ''undefined''"
| "to_text Object = js ''[object Object]''"

text \<open>
  The properties every object literal inherits from \<open>Object.prototype\<close>. A property read
  \<open>obj[key]\<close> on an object literal finds the literal's own properties first and these
  next; every one of them is a function or an object.
\<close>

definition Object_prototype_properties :: "jsstring list" where
  "Object_prototype_properties =
     map js [''constructor'', ''__defineGetter__'', ''__defineSetter__'', ''hasOwnProperty'',
             ''__lookupGetter__'', ''__lookupSetter__'', ''isPrototypeOf'',
             ''propertyIsEnumerable'', ''toString'', ''valueOf'', ''__proto__'',
             ''toLocaleString'']"

definition get_property :: "(jsstring \<times> jsstring) list \<Rightarrow> jsstring \<Rightarrow> js_value" where
  "get_property own key =
     (case map_of own key of
        Some v \<Rightarrow> Str v
      | None \<Rightarrow> if key \<in> set Object_prototype_properties then Object else Undefined)"

section \<open>Regular expressions of the shape the source uses\<close>

text \<open>
  The only regular expression of the source is \<open>/^[^\s@]+@[^\s@]+\.[^\s@]+$/\<close>, without
  flags: anchored at both ends, a sequence of atoms each taken once or one-or-more times.
  \<open>regex_test\<close> is the backtracking matcher of \<open>RegExp.prototype.test\<close> for such
  sequences: a \<open>+\<close> atom consumes one code unit and then either repeats or hands over to
  the rest of the pattern.
\<close>

datatype class_item = ClassSpace | ClassChar code_unit
datatype atom = Literal code_unit | NegatedClass "class_item list"
datatype quantifier = Once | OneOrMore
type_synonym regex = "(atom \<times> quantifier) list"

fun class_item_matches :: "class_item \<Rightarrow> code_unit \<Rightarrow> bool" where
  "class_item_matches ClassSpace c = isWhiteSpace c"
| "class_item_matches (ClassChar k) c = (c = k)"

fun atom_matches :: "atom \<Rightarrow> code_unit \<Rightarrow> bool" where
  "atom_matches (Literal k) c = (c = k)"
| "atom_matches (NegatedClass items) c = (\<not> list_ex (\<lambda>i. class_item_matches i c) items)"

fun regex_test :: "regex \<Rightarrow> jsstring \<Rightarrow> bool" where
  "regex_test [] s = (s = [])"
| "regex_test ((a, q) # ps) [] = False"
| "regex_test ((a, Once) # ps) (c # cs) = (atom_matches a c \<and> regex_test ps cs)"
| "regex_test ((a, OneOrMore) # ps) (c # cs) =
     (atom_matches a c \<and> (regex_test ((a, OneOrMore) # ps) cs \<or> regex_test ps cs))"

section \<open>CONFIG\<close>

definition THEME_DEFAULT :: jsstring where
  "THEME_DEFAULT = js ''dark''"

definition THEME_STORAGE_KEY :: jsstring where
  "THEME_STORAGE_KEY = js ''portfolio-theme''"

text \<open>The own properties of \<open>CONFIG.THEME.ICONS\<close> (a moon, and a sun with its variation
  selector) and of \<open>CONFIG.THEME.LABELS\<close>.\<close>

definition THEME_ICONS :: "(jsstring \<times> jsstring) list" where
  "THEME_ICONS = [(js ''light'', [0xD83C, 0xDF19]), (js ''dark'', [0x2600, 0xFE0F])]"

definition THEME_LABELS :: "(jsstring \<times> jsstring) list" where
  "THEME_LABELS = [(js ''light'', js ''Modo Escuro''), (js ''dark'', js ''Modo Claro'')]"

definition THEME_TRANSITION_DURATION :: nat where
  "THEME_TRANSITION_DURATION = 300"

section \<open>The page as the theme code sees it\<close>

text \<open>
  \<open>sessionStorage\<close>: its entries, and whether reading or writing it throws (storage
  disabled, quota exceeded).
\<close>

record session_storage =
  items :: "jsstring \<rightharpoonup> jsstring"
  read_fails :: bool
  write_fails :: bool

definition getItem :: "session_storage \<Rightarrow> jsstring \<Rightarrow> js_error + jsstring option" where
  "getItem st k = (if read_fails st then Inl SecurityError else Inr (items st k))"

definition setItem :: "session_storage \<Rightarrow> jsstring \<Rightarrow> jsstring \<Rightarrow> js_error + session_storage" where
  "setItem st k v =
     (if write_fails st then Inl QuotaExceededError else Inr (st\<lparr>items := (items st)(k \<mapsto> v)\<rparr>))"

datatype timer_action =
  RemoveThemeTransition | SubmissionLatency | HideSuccessMessage | HideErrorMessage

record custom_event =
  event_type :: jsstring
  detail_theme :: "jsstring option"

text \<open>
  \<open>body_data_theme\<close> is the \<open>data-theme\<close> attribute of the body, \<open>meta_theme_color\<close> the
  \<open>content\<close> of the \<open>meta[name="theme-color"]\<close> element when the page has one,
  \<open>timeouts\<close> the calls of \<open>setTimeout\<close> made so far (delay and action) and
  \<open>dispatched\<close> the events dispatched on the document so far.
\<close>

record page =
  body_data_theme :: "jsstring option"
  body_classes :: "jsstring set"
  meta_theme_color :: "jsstring option"
  sessionStorage :: session_storage
  timeouts :: "(nat \<times> timer_action) list"
  dispatched :: "custom_event list"

section \<open>ThemeManager\<close>

text \<open>
  The toggle control \<open>.theme-toggle\<close>: the text of its \<open>.theme-icon\<close> child (when it has
  one) and its two ARIA attributes. Only the ThemeManager writes to it, so the manager
  holds the element itself; \<open>button = None\<close> is the source's \<open>this.button === null\<close>.
\<close>

record theme_button =
  icon :: "jsstring option"
  aria_label :: "jsstring option"
  aria_pressed :: "jsstring option"

record theme_manager =
  currentTheme :: jsstring
  button :: "theme_button option"

definition apply_theme :: "jsstring \<Rightarrow> page \<Rightarrow> page" where
  "apply_theme theme pg =
     pg\<lparr>body_data_theme := (if theme = js ''dark'' then Some (js ''dark'') else None),
        body_classes := insert (js ''theme-transition'') (body_classes pg),
        timeouts := timeouts pg @ [(THEME_TRANSITION_DURATION, RemoveThemeTransition)]\<rparr>"

definition updateButton :: "theme_manager \<Rightarrow> theme_manager" where
  "updateButton tm =
     (case button tm of
        None \<Rightarrow> tm
      | Some b \<Rightarrow>
          (let nextTheme = (if currentTheme tm = js ''light'' then js ''dark'' else js ''light'')
           in tm\<lparr>button := Some (b\<lparr>
                icon := (case icon b of
                           None \<Rightarrow> None
                         | Some _ \<Rightarrow> Some (to_text (get_property THEME_ICONS nextTheme))),
                aria_label := Some (to_text (get_property THEME_LABELS nextTheme)),
                aria_pressed :=
                  Some (if currentTheme tm = js ''dark'' then js ''true'' else js ''false'')\<rparr>)\<rparr>))"

definition save :: "theme_manager \<Rightarrow> page \<Rightarrow> page" where
  "save tm pg =
     (case setItem (sessionStorage pg) THEME_STORAGE_KEY (currentTheme tm) of
        Inl e \<Rightarrow> pg
      | Inr st \<Rightarrow> pg\<lparr>sessionStorage := st\<rparr>)"

definition loadSavedTheme :: "theme_manager \<Rightarrow> page \<Rightarrow> theme_manager" where
  "loadSavedTheme tm pg =
     (case getItem (sessionStorage pg) THEME_STORAGE_KEY of
        Inl e \<Rightarrow> tm\<lparr>currentTheme := THEME_DEFAULT\<rparr>
      | Inr None \<Rightarrow> tm\<lparr>currentTheme := THEME_DEFAULT\<rparr>
      | Inr (Some saved) \<Rightarrow>
          tm\<lparr>currentTheme :=
               (if saved \<noteq> [] \<and> truthy (get_property THEME_ICONS saved) then saved
                else THEME_DEFAULT)\<rparr>)"

definition set_theme :: "jsstring \<Rightarrow> theme_manager \<times> page \<Rightarrow> theme_manager \<times> page" where
  "set_theme theme s =
     (case s of (tm, pg) \<Rightarrow>
        if \<not> truthy (get_property THEME_ICONS theme) then (tm, pg)
        else
          (let tm1 = tm\<lparr>currentTheme := theme\<rparr>;
               pg1 = apply_theme theme pg;
               pg2 = save tm1 pg1
           in (updateButton tm1, pg2)))"

definition toggle :: "theme_manager \<times> page \<Rightarrow> theme_manager \<times> page" where
  "toggle s =
     (let newTheme = (if currentTheme (fst s) = js ''light'' then js ''dark'' else js ''light'')
      in set_theme newTheme s)"

text \<open>
  \<open>init\<close>, given what \<open>document.querySelector('.theme-toggle')\<close> returns. With a control
  it also registers the click listener \<open>() => this.toggle()\<close>.
\<close>

definition ThemeManager_init ::
  "theme_button option \<Rightarrow> theme_manager \<times> page \<Rightarrow> theme_manager \<times> page" where
  "ThemeManager_init found s =
     (case s of (tm, pg) \<Rightarrow>
        (let tm1 = tm\<lparr>button := found\<rparr>
         in case button tm1 of
              None \<Rightarrow> (tm1, pg)
            | Some b \<Rightarrow>
                (let tm2 = loadSavedTheme tm1 pg
                 in (tm2, apply_theme (currentTheme tm2) pg))))"

definition ThemeManager_new :: "theme_button option \<Rightarrow> page \<Rightarrow> theme_manager \<times> page" where
  "ThemeManager_new found pg =
     ThemeManager_init found (\<lparr>currentTheme = THEME_DEFAULT, button = None\<rparr>, pg)"

text \<open>The method names the class declares; an instance has no other property of its own
  besides \<open>currentTheme\<close> and \<open>button\<close>.\<close>

definition ThemeManager_methods :: "jsstring list" where
  "ThemeManager_methods =
     map js [''init'', ''toggle'', ''set'', ''apply'', ''updateButton'', ''save'',
             ''loadSavedTheme'']"

section \<open>NavigationManager: the active section\<close>

text \<open>
  The elements the code touches when a section becomes active, in document order: whether
  the element is an anchor, its \<open>href\<close>, whether it matches \<open>.nav-link, .footer-link\<close>,
  and whether its class list holds \<open>active\<close>. \<open>navLinks\<close> holds the positions of the
  elements that \<open>querySelectorAll\<close> returned at construction. \<open>classList_calls\<close> counts
  the calls of \<open>classList.add\<close> and \<open>classList.remove\<close> made so far. Section identifiers
  are taken to be free of the characters that are special inside a quoted CSS string, so
  that the selector \<open>a[href="#id"]\<close> selects the first anchor whose \<open>href\<close> is \<open>#id\<close>.
\<close>

record link_element =
  is_anchor :: bool
  href :: "jsstring option"
  nav_class :: bool
  active :: bool

record navigation_manager =
  isMenuOpen :: bool
  currentSection :: jsstring
  navLinks :: "nat list"
  document_links :: "link_element list"
  classList_calls :: nat

definition NavigationManager_new :: "link_element list \<Rightarrow> navigation_manager" where
  "NavigationManager_new els =
     \<lparr>isMenuOpen = False, currentSection = js ''sobre'',
      navLinks = filter (\<lambda>i. nav_class (els ! i)) [0..<length els],
      document_links = els, classList_calls = 0\<rparr>"

definition set_active_class :: "bool \<Rightarrow> nat \<Rightarrow> navigation_manager \<Rightarrow> navigation_manager" where
  "set_active_class v i nm =
     nm\<lparr>document_links := (document_links nm)[i := (document_links nm ! i)\<lparr>active := v\<rparr>],
        classList_calls := Suc (classList_calls nm)\<rparr>"

definition setActiveSection :: "jsstring \<Rightarrow> navigation_manager \<Rightarrow> navigation_manager" where
  "setActiveSection sectionId nm =
     (if currentSection nm = sectionId then nm
      else
        (let nm1 = nm\<lparr>currentSection := sectionId\<rparr>;
             nm2 = foldl (\<lambda>s i. set_active_class False i s) nm1 (navLinks nm1)
         in case find (\<lambda>i. is_anchor (document_links nm2 ! i) \<and>
                            href (document_links nm2 ! i) = Some (0x23 # sectionId))
                      [0..<length (document_links nm2)] of
              None \<Rightarrow> nm2
            | Some i \<Rightarrow> set_active_class True i nm2))"

text \<open>The IntersectionObserver callback: the entries are pairs of \<open>isIntersecting\<close> and
  the identifier of the target section, handled in the order reported.\<close>

definition observer_callback ::
  "(bool \<times> jsstring) list \<Rightarrow> navigation_manager \<Rightarrow> navigation_manager" where
  "observer_callback entries nm =
     foldl (\<lambda>s entry. if fst entry then setActiveSection (snd entry) s else s) nm entries"

definition NavigationManager_methods :: "jsstring list" where
  "NavigationManager_methods =
     map js [''init'', ''setupEventListeners'', ''setupSectionObserver'', ''toggleMobileMenu'',
             ''openMobileMenu'', ''closeMobileMenu'', ''handleNavClick'', ''scrollToSection'',
             ''setActiveSection'', ''handleOutsideClick'', ''handleNavKeydown'',
             ''handleToggleKeydown'', ''navigateMenuWithArrows'', ''handleResize'']"

section \<open>FormValidator\<close>

datatype field_name = Name | Email | Message

text \<open>\<open>Object.keys(this.fields)\<close>: the keys in the order the constructor declares them.\<close>

definition field_order :: "field_name list" where
  "field_order = [Name, Email, Message]"

text \<open>
  An input of the form (its value, whether its class list holds \<open>form-input--error\<close>, its
  \<open>aria-invalid\<close> attribute) and the element that shows its error (text and
  \<open>style.display\<close>). A field of \<open>this.fields\<close> holds both, or \<open>None\<close> for \<open>null\<close> where
  \<open>querySelector\<close> found nothing; \<open>fvalue\<close> is the source's \<open>value\<close>.
\<close>

record input_element =
  el_value :: jsstring
  error_class :: bool
  aria_invalid :: "jsstring option"

record error_element =
  textContent :: jsstring
  display :: jsstring

record field =
  element :: "input_element option"
  errorElement :: "error_element option"
  isValid :: bool
  fvalue :: jsstring

record submit_button =
  disabled :: bool
  loading_class :: bool
  submit_text_display :: "jsstring option"
  submit_loading_display :: "jsstring option"

record modal =
  modal_display :: jsstring
  show_class :: bool
  aria_hidden :: "jsstring option"

record message_element =
  msg_text :: jsstring
  msg_display :: jsstring

datatype focus_target = FieldInput field_name | SubmitControl | ModalCloseControl | Elsewhere

datatype listener = ModalCloseClick | EscapeKeydown | ModalBackdropClick

text \<open>
  A FormValidator whose form was found, with the part of the document it reads and
  writes: the success modal \<open>#successModal\<close> and whether \<open>#modalClose\<close> exists, the
  inline \<open>.success-message\<close> and \<open>.form-error-message\<close> elements of the form, the
  focused element, the calls of \<open>setTimeout\<close> made so far and the listeners added by
  \<open>showSuccessMessage\<close>.
\<close>

record form_validator =
  form_fields :: "field_name \<Rightarrow> field"
  submitButton :: "submit_button option"
  isSubmitting :: bool
  successModal :: "modal option"
  modalClose :: bool
  successMessage :: "message_element option"
  formErrorMessage :: "message_element option"
  activeElement :: "focus_target option"
  scheduled :: "(nat \<times> timer_action) list"
  listeners :: "listener list"

definition emailRegex :: regex where
  "emailRegex =
     [(NegatedClass [ClassSpace, ClassChar 0x40], OneOrMore), (Literal 0x40, Once),
      (NegatedClass [ClassSpace, ClassChar 0x40], OneOrMore), (Literal 0x2E, Once),
      (NegatedClass [ClassSpace, ClassChar 0x40], OneOrMore)]"

definition isValidEmail :: "jsstring \<Rightarrow> bool" where
  "isValidEmail email = regex_test emailRegex email"

text \<open>The four messages of \<open>validateField\<close> and the two of the submission.\<close>

definition MSG_REQUIRED :: jsstring where
  "MSG_REQUIRED = js ''Este campo '' @ [0xE9] @ js '' obrigat'' @ [0xF3] @ js ''rio''"

definition MSG_EMAIL :: jsstring where
  "MSG_EMAIL = js ''Por favor, insira um email v'' @ [0xE1] @ js ''lido''"

definition MSG_MESSAGE :: jsstring where
  "MSG_MESSAGE = js ''A mensagem deve ter pelo menos 10 caracteres''"

definition MSG_NAME :: jsstring where
  "MSG_NAME = js ''O nome deve ter pelo menos 2 caracteres''"

definition MSG_SUCCESS :: jsstring where
  "MSG_SUCCESS = js ''Mensagem enviada com sucesso! Entrarei em contato em breve.''"

definition MSG_SUBMIT_ERROR :: jsstring where
  "MSG_SUBMIT_ERROR = js ''Erro ao enviar mensagem. Tente novamente.''"

subsection \<open>Operations on one field\<close>

text \<open>
  \<open>showFieldError\<close>, \<open>clearFieldError\<close> and \<open>validateField\<close> read \<open>this.fields[fieldName]\<close>
  and touch nothing else, so each is written on the field first. A result is the value
  returned or the error thrown, together with the field as it is at that moment: what
  was written before a throw stays written. Both display functions dereference
  \<open>field.element\<close> once the error element exists, which throws when the input is missing.
\<close>

definition showFieldError_on :: "jsstring \<Rightarrow> field \<Rightarrow> (js_error + unit) \<times> field" where
  "showFieldError_on message fld =
     (case errorElement fld of
        None \<Rightarrow> (Inr (), fld)
      | Some ee \<Rightarrow>
          (let fld1 = fld\<lparr>errorElement :=
                          Some (ee\<lparr>textContent := message, display := js ''block''\<rparr>)\<rparr>
           in case element fld1 of
                None \<Rightarrow> (Inl TypeError, fld1)
              | Some el \<Rightarrow>
                  (Inr (), fld1\<lparr>element :=
                     Some (el\<lparr>error_class := True, aria_invalid := Some (js ''true'')\<rparr>)\<rparr>)))"

definition clearFieldError_on :: "field \<Rightarrow> (js_error + unit) \<times> field" where
  "clearFieldError_on fld =
     (case errorElement fld of
        None \<Rightarrow> (Inr (), fld)
      | Some ee \<Rightarrow>
          (let fld1 = fld\<lparr>errorElement := Some (ee\<lparr>textContent := [], display := js ''none''\<rparr>)\<rparr>
           in case element fld1 of
                None \<Rightarrow> (Inl TypeError, fld1)
              | Some el \<Rightarrow>
                  (Inr (), fld1\<lparr>element :=
                     Some (el\<lparr>error_class := False, aria_invalid := Some (js ''false'')\<rparr>)\<rparr>)))"

text \<open>The three statements every failing branch of \<open>validateField\<close> ends with: show the
  message, \<open>field.isValid = false\<close>, \<open>return false\<close>.\<close>

definition show_error_and_fail :: "jsstring \<Rightarrow> field \<Rightarrow> (js_error + bool) \<times> field" where
  "show_error_and_fail message fld =
     (case showFieldError_on message fld of
        (Inl e, fld1) \<Rightarrow> (Inl e, fld1)
      | (Inr u, fld1) \<Rightarrow> (Inr False, fld1\<lparr>isValid := False\<rparr>))"

definition validateField_on :: "field_name \<Rightarrow> field \<Rightarrow> (js_error + bool) \<times> field" where
  "validateField_on fieldName fld =
     (case element fld of
        None \<Rightarrow> (Inr False, fld)
      | Some el \<Rightarrow>
          (let v = trim (el_value el);
               fld1 = fld\<lparr>fvalue := v\<rparr>
           in case clearFieldError_on fld1 of
                (Inl e, fld2) \<Rightarrow> (Inl e, fld2)
              | (Inr u, fld2) \<Rightarrow>
                  if v = [] then show_error_and_fail MSG_REQUIRED fld2
                  else
                    (case fieldName of
                       Email \<Rightarrow>
                         if \<not> isValidEmail v then show_error_and_fail MSG_EMAIL fld2
                         else (Inr True, fld2\<lparr>isValid := True\<rparr>)
                     | Message \<Rightarrow>
                         if length v < 10 then show_error_and_fail MSG_MESSAGE fld2
                         else (Inr True, fld2\<lparr>isValid := True\<rparr>)
                     | Name \<Rightarrow>
                         if length v < 2 then show_error_and_fail MSG_NAME fld2
                         else (Inr True, fld2\<lparr>isValid := True\<rparr>))))"

subsection \<open>Operations on the form\<close>

definition on_field ::
  "field_name \<Rightarrow> (field \<Rightarrow> (js_error + 'a) \<times> field) \<Rightarrow> form_validator \<Rightarrow>
   (js_error + 'a) \<times> form_validator" where
  "on_field fieldName m fv =
     (case m (form_fields fv fieldName) of
        (r, fld) \<Rightarrow> (r, fv\<lparr>form_fields := (form_fields fv)(fieldName := fld)\<rparr>))"

definition showFieldError ::
  "field_name \<Rightarrow> jsstring \<Rightarrow> form_validator \<Rightarrow> (js_error + unit) \<times> form_validator" where
  "showFieldError fieldName message fv = on_field fieldName (showFieldError_on message) fv"

definition clearFieldError ::
  "field_name \<Rightarrow> form_validator \<Rightarrow> (js_error + unit) \<times> form_validator" where
  "clearFieldError fieldName fv = on_field fieldName clearFieldError_on fv"

definition validateField ::
  "field_name \<Rightarrow> form_validator \<Rightarrow> (js_error + bool) \<times> form_validator" where
  "validateField fieldName fv = on_field fieldName (validateField_on fieldName) fv"

text \<open>The \<open>forEach\<close> of \<open>validateAllFields\<close>: every field is validated, none is skipped
  after a failure; \<open>ok\<close> is the source's local \<open>isValid\<close>.\<close>

fun validate_each ::
  "field_name list \<Rightarrow> bool \<Rightarrow> form_validator \<Rightarrow> (js_error + bool) \<times> form_validator" where
  "validate_each [] ok fv = (Inr ok, fv)"
| "validate_each (f # fs) ok fv =
     (case validateField f fv of
        (Inl e, fv1) \<Rightarrow> (Inl e, fv1)
      | (Inr valid, fv1) \<Rightarrow> validate_each fs (if \<not> valid then False else ok) fv1)"

definition validateAllFields :: "form_validator \<Rightarrow> (js_error + bool) \<times> form_validator" where
  "validateAllFields fv = validate_each field_order True fv"

fun clear_each :: "field_name list \<Rightarrow> form_validator \<Rightarrow> (js_error + unit) \<times> form_validator" where
  "clear_each [] fv = (Inr (), fv)"
| "clear_each (f # fs) fv =
     (case clearFieldError f fv of
        (Inl e, fv1) \<Rightarrow> (Inl e, fv1)
      | (Inr u, fv1) \<Rightarrow> clear_each fs fv1)"

definition clearAllErrors :: "form_validator \<Rightarrow> (js_error + unit) \<times> form_validator" where
  "clearAllErrors fv = clear_each field_order fv"

definition focusFirstError :: "form_validator \<Rightarrow> form_validator" where
  "focusFirstError fv =
     (case find (\<lambda>fieldName. \<not> isValid (form_fields fv fieldName)) field_order of
        None \<Rightarrow> fv
      | Some firstErrorField \<Rightarrow>
          (case element (form_fields fv firstErrorField) of
             None \<Rightarrow> fv
           | Some el \<Rightarrow> fv\<lparr>activeElement := Some (FieldInput firstErrorField)\<rparr>))"

definition setSubmitButtonState :: "bool \<Rightarrow> form_validator \<Rightarrow> form_validator" where
  "setSubmitButtonState isLoading fv =
     (case submitButton fv of
        None \<Rightarrow> fv
      | Some b \<Rightarrow>
          if isLoading then
            fv\<lparr>submitButton := Some (b\<lparr>
                 disabled := True, loading_class := True,
                 submit_text_display := map_option (\<lambda>d. js ''none'') (submit_text_display b),
                 submit_loading_display :=
                   map_option (\<lambda>d. js ''inline'') (submit_loading_display b)\<rparr>)\<rparr>
          else
            fv\<lparr>submitButton := Some (b\<lparr>
                 disabled := False, loading_class := False,
                 submit_text_display := map_option (\<lambda>d. js ''inline'') (submit_text_display b),
                 submit_loading_display :=
                   map_option (\<lambda>d. js ''none'') (submit_loading_display b)\<rparr>)\<rparr>)"

definition closeModal :: "form_validator \<Rightarrow> form_validator" where
  "closeModal fv =
     (let fv1 = fv\<lparr>successModal :=
                    map_option (\<lambda>m. m\<lparr>modal_display := js ''none'', show_class := False,
                                       aria_hidden := Some (js ''true'')\<rparr>) (successModal fv)\<rparr>
      in case submitButton fv1 of
           None \<Rightarrow> fv1
         | Some b \<Rightarrow> fv1\<lparr>activeElement := Some SubmitControl\<rparr>)"

definition showSuccessMessage :: "form_validator \<Rightarrow> form_validator" where
  "showSuccessMessage fv =
     (case successModal fv of
        Some m \<Rightarrow>
          (let fv1 = fv\<lparr>successModal :=
                         Some (m\<lparr>modal_display := js ''flex'', show_class := True,
                                 aria_hidden := Some (js ''false'')\<rparr>)\<rparr>
           in if modalClose fv1
              then fv1\<lparr>activeElement := Some ModalCloseControl,
                       listeners := listeners fv1 @
                         [ModalCloseClick, EscapeKeydown, ModalBackdropClick]\<rparr>
              else fv1)
      | None \<Rightarrow>
          (let successElement =
                 (case successMessage fv of
                    None \<Rightarrow> \<lparr>msg_text = [], msg_display = []\<rparr>
                  | Some e \<Rightarrow> e)
           in fv\<lparr>successMessage :=
                   Some (successElement\<lparr>msg_text := MSG_SUCCESS, msg_display := js ''block''\<rparr>),
                 scheduled := scheduled fv @ [(5000, HideSuccessMessage)]\<rparr>))"

definition showErrorMessage :: "jsstring \<Rightarrow> form_validator \<Rightarrow> form_validator" where
  "showErrorMessage message fv =
     (let errorElement =
            (case formErrorMessage fv of
               None \<Rightarrow> \<lparr>msg_text = [], msg_display = []\<rparr>
             | Some e \<Rightarrow> e)
      in fv\<lparr>formErrorMessage :=
              Some (errorElement\<lparr>msg_text := message, msg_display := js ''block''\<rparr>),
            scheduled := scheduled fv @ [(5000, HideErrorMessage)]\<rparr>)"

definition reset_field :: "field \<Rightarrow> field" where
  "reset_field fld =
     (case element fld of
        None \<Rightarrow> fld
      | Some el \<Rightarrow> fld\<lparr>element := Some (el\<lparr>el_value := []\<rparr>), fvalue := [], isValid := False\<rparr>)"

definition clearForm :: "form_validator \<Rightarrow> (js_error + unit) \<times> form_validator" where
  "clearForm fv =
     clearAllErrors
       (foldl (\<lambda>s fieldName. s\<lparr>form_fields := (form_fields s)(fieldName := reset_field (form_fields s fieldName))\<rparr>)
          fv field_order)"

text \<open>
  \<open>simulateFormSubmission\<close> runs up to its \<open>await\<close>, and resumes when the awaited promise
  settles. \<open>latency\<close> is how it settles: \<open>None\<close> when the timer fires, \<open>Some e\<close> when the
  wait throws \<open>e\<close>. The \<open>catch\<close> block sees the state as the \<open>try\<close> block left it, and
  the \<open>finally\<close> block runs after either.
\<close>

definition simulateFormSubmission_begin :: "form_validator \<Rightarrow> form_validator" where
  "simulateFormSubmission_begin fv =
     (let fv1 = setSubmitButtonState True (fv\<lparr>isSubmitting := True\<rparr>)
      in fv1\<lparr>scheduled := scheduled fv1 @ [(1500, SubmissionLatency)]\<rparr>)"

definition simulateFormSubmission_resume ::
  "js_error option \<Rightarrow> form_validator \<Rightarrow> form_validator" where
  "simulateFormSubmission_resume latency fv =
     (let tried =
            (case latency of
               Some e \<Rightarrow> (Inl e, fv)
             | None \<Rightarrow> clearForm (showSuccessMessage fv));
          caught =
            (case tried of
               (Inl e, fv1) \<Rightarrow> showErrorMessage MSG_SUBMIT_ERROR fv1
             | (Inr u, fv1) \<Rightarrow> fv1)
      in setSubmitButtonState False (caught\<lparr>isSubmitting := False\<rparr>))"

definition simulateFormSubmission :: "js_error option \<Rightarrow> form_validator \<Rightarrow> form_validator" where
  "simulateFormSubmission latency fv =
     simulateFormSubmission_resume latency (simulateFormSubmission_begin fv)"

text \<open>
  \<open>handleSubmit\<close> up to the \<open>await\<close> inside \<open>simulateFormSubmission\<close>; the rest of an
  accepted submit is \<open>simulateFormSubmission_resume\<close>. (\<open>e.preventDefault()\<close> acts on the
  event only.)
\<close>

definition handleSubmit :: "form_validator \<Rightarrow> (js_error + unit) \<times> form_validator" where
  "handleSubmit fv =
     (if isSubmitting fv then (Inr (), fv)
      else
        (case validateAllFields fv of
           (Inl e, fv1) \<Rightarrow> (Inl e, fv1)
         | (Inr isFormValid, fv1) \<Rightarrow>
             if \<not> isFormValid then (Inr (), focusFirstError fv1)
             else (Inr (), simulateFormSubmission_begin fv1)))"

text \<open>The constructor followed by \<open>setupFormElements\<close>, given what the element lookups
  return.\<close>

definition FormValidator_new ::
  "(field_name \<Rightarrow> input_element option) \<Rightarrow> (field_name \<Rightarrow> error_element option) \<Rightarrow>
   submit_button option \<Rightarrow> modal option \<Rightarrow> bool \<Rightarrow> form_validator" where
  "FormValidator_new inputs errors submit dialog close_found =
     \<lparr>form_fields = (\<lambda>f. \<lparr>element = inputs f, errorElement = errors f, isValid = False, fvalue = []\<rparr>),
      submitButton = submit, isSubmitting = False, successModal = dialog,
      modalClose = close_found, successMessage = None, formErrorMessage = None,
      activeElement = None, scheduled = [], listeners = []\<rparr>"

subsection \<open>An invariant of the fields\<close>

text \<open>
  An invariant of the validator: a field whose input is missing is never marked valid.
  The constructor marks every field invalid, and \<open>validateField\<close> marks a field valid
  only after it has found the input.
\<close>

definition fields_consistent :: "form_validator \<Rightarrow> bool" where
  "fields_consistent fv \<longleftrightarrow>
     (\<forall>f. element (form_fields fv f) = None \<longrightarrow> \<not> isValid (form_fields fv f))"

subsection \<open>The events of the form\<close>

text \<open>
  What the listeners of the form do. The blur and input listeners of a field are
  registered only when its input exists; a submit runs \<open>handleSubmit\<close>; the awaited
  latency settles only while a submission is in flight; closing the success modal runs
  \<open>closeModal\<close>. An error thrown inside a listener ends that listener and leaves the
  state as it was at the throw.
\<close>

datatype form_event =
  Blur field_name | Input field_name | Submit | LatencySettled "js_error option" | ModalClosed

definition form_step :: "form_event \<Rightarrow> form_validator \<Rightarrow> form_validator" where
  "form_step ev fv =
     (case ev of
        Blur f \<Rightarrow> (case element (form_fields fv f) of
                     None \<Rightarrow> fv
                   | Some el \<Rightarrow> snd (validateField f fv))
      | Input f \<Rightarrow> (case element (form_fields fv f) of
                      None \<Rightarrow> fv
                    | Some el \<Rightarrow> snd (clearFieldError f fv))
      | Submit \<Rightarrow> snd (handleSubmit fv)
      | LatencySettled latency \<Rightarrow>
          if isSubmitting fv then simulateFormSubmission_resume latency fv else fv
      | ModalClosed \<Rightarrow> closeModal fv)"

definition run_form :: "form_event list \<Rightarrow> form_validator \<Rightarrow> form_validator" where
  "run_form evs fv = foldl (\<lambda>s ev. form_step ev s) fv evs"

section \<open>PortfolioApp: wiring the components\<close>

text \<open>
  \<open>toggleTheme_wrapped\<close> and \<open>scrollToSection_wrapped\<close> record the two instance
  properties that \<open>setupComponentIntegration\<close> installs.
\<close>

record portfolio_app =
  themeManager :: "theme_manager option"
  navigationManager :: "navigation_manager option"
  formValidator :: "form_validator option"
  isInitialized :: bool
  toggleTheme_wrapped :: bool
  scrollToSection_wrapped :: bool

text \<open>
  Reading the method \<open>name\<close> of an instance of a class that declares \<open>methods\<close>: the
  result is \<open>undefined\<close> unless the class or \<open>Object.prototype\<close> has that name, and
  calling \<open>.bind\<close> on \<open>undefined\<close> throws a TypeError.
\<close>

definition bind_method :: "jsstring list \<Rightarrow> jsstring \<Rightarrow> js_error + unit" where
  "bind_method methods name =
     (if name \<in> set methods \<or> name \<in> set Object_prototype_properties then Inr ()
      else Inl TypeError)"

definition setupComponentIntegration :: "portfolio_app \<Rightarrow> js_error + portfolio_app" where
  "setupComponentIntegration app =
     (case (if themeManager app \<noteq> None \<and> navigationManager app \<noteq> None
            then (case bind_method ThemeManager_methods (js ''toggleTheme'') of
                    Inl e \<Rightarrow> Inl e
                  | Inr u \<Rightarrow> Inr (app\<lparr>toggleTheme_wrapped := True\<rparr>))
            else Inr app) of
        Inl e \<Rightarrow> Inl e
      | Inr app1 \<Rightarrow>
          if navigationManager app1 \<noteq> None \<and> formValidator app1 \<noteq> None
          then (case bind_method NavigationManager_methods (js ''scrollToSection'') of
                  Inl e \<Rightarrow> Inl e
                | Inr u \<Rightarrow> Inr (app1\<lparr>scrollToSection_wrapped := True\<rparr>))
          else Inr app1)"

definition updateThemeSpecificElements :: "page \<Rightarrow> page" where
  "updateThemeSpecificElements pg =
     (case meta_theme_color pg of
        None \<Rightarrow> pg
      | Some c \<Rightarrow>
          (let isDark = (body_data_theme pg = Some (js ''dark''))
           in pg\<lparr>meta_theme_color := Some (if isDark then js ''#1a1a1a'' else js ''#ffffff'')\<rparr>))"

definition onThemeChange :: "portfolio_app \<times> page \<Rightarrow> portfolio_app \<times> page" where
  "onThemeChange s =
     (case s of (app, pg) \<Rightarrow>
        (let pg1 = updateThemeSpecificElements pg
         in (app, pg1\<lparr>dispatched := dispatched pg1 @
               [\<lparr>event_type = js ''portfolioThemeChange'',
                 detail_theme = map_option currentTheme (themeManager app)\<rparr>]\<rparr>)))"

definition initializeComponents ::
  "theme_button option \<Rightarrow> navigation_manager \<Rightarrow> form_validator \<Rightarrow>
   portfolio_app \<times> page \<Rightarrow> portfolio_app \<times> page" where
  "initializeComponents found nm fv s =
     (case s of (app, pg) \<Rightarrow>
        (case ThemeManager_new found pg of
           (tm, pg1) \<Rightarrow>
             (app\<lparr>themeManager := Some tm, navigationManager := Some nm,
                  formValidator := Some fv\<rparr>, pg1)))"

definition handleInitializationError ::
  "theme_button option \<Rightarrow> portfolio_app \<times> page \<Rightarrow> portfolio_app \<times> page" where
  "handleInitializationError found s =
     (case s of (app, pg) \<Rightarrow>
        (case themeManager app of
           Some tm \<Rightarrow> (app, pg)
         | None \<Rightarrow>
             (case ThemeManager_new found pg of
                (tm, pg1) \<Rightarrow> (app\<lparr>themeManager := Some tm\<rparr>, pg1))))"

text \<open>
  The constructor and \<open>init\<close>, given the toggle control the page has (if any) and the
  navigation manager and form validator as their constructors build them from the page.
  \<open>setupGlobalEventListeners\<close> only registers listeners.
\<close>

definition PortfolioApp_new ::
  "theme_button option \<Rightarrow> navigation_manager \<Rightarrow> form_validator \<Rightarrow> page \<Rightarrow>
   portfolio_app \<times> page" where
  "PortfolioApp_new found nm fv pg =
     (let app0 = \<lparr>themeManager = None, navigationManager = None, formValidator = None,
                  isInitialized = False, toggleTheme_wrapped = False,
                  scrollToSection_wrapped = False\<rparr>;
          s1 = initializeComponents found nm fv (app0, pg)
      in case setupComponentIntegration (fst s1) of
           Inl e \<Rightarrow> handleInitializationError found s1
         | Inr app2 \<Rightarrow> (app2\<lparr>isInitialized := True\<rparr>, snd s1))"

text \<open>
  A click on the toggle control runs the listener that \<open>ThemeManager.init\<close> registered,
  \<open>() => this.toggle()\<close>; there is a listener only when the control was found.
\<close>

definition theme_toggle_click :: "portfolio_app \<times> page \<Rightarrow> portfolio_app \<times> page" where
  "theme_toggle_click s =
     (case s of (app, pg) \<Rightarrow>
        (case themeManager app of
           None \<Rightarrow> (app, pg)
         | Some tm \<Rightarrow>
             (case button tm of
                None \<Rightarrow> (app, pg)
              | Some b \<Rightarrow>
                  (case toggle (tm, pg) of
                     (tm1, pg1) \<Rightarrow> (app\<lparr>themeManager := Some tm1\<rparr>, pg1)))))"

text \<open>
  The keyboard shortcut Ctrl/Cmd+Shift+T of \<open>handleKeyboardShortcuts\<close> calls
  \<open>this.components.themeManager.toggleTheme()\<close>. The property read finds the installed
  wrapper (the bound original followed by \<open>onThemeChange\<close>), else a method of the
  class, else \<open>undefined\<close>, and calling \<open>undefined\<close> throws a TypeError. \<open>original\<close>
  stands for the body of the class's method of that name, should the class have one.
\<close>

definition theme_shortcut ::
  "(theme_manager \<times> page \<Rightarrow> theme_manager \<times> page) \<Rightarrow> portfolio_app \<times> page \<Rightarrow>
   js_error + portfolio_app \<times> page" where
  "theme_shortcut original s =
     (case s of (app, pg) \<Rightarrow>
        (case themeManager app of
           None \<Rightarrow> Inr (app, pg)
         | Some tm \<Rightarrow>
             if toggleTheme_wrapped app then
               (case original (tm, pg) of
                  (tm1, pg1) \<Rightarrow> Inr (onThemeChange (app\<lparr>themeManager := Some tm1\<rparr>, pg1)))
             else
               (case bind_method ThemeManager_methods (js ''toggleTheme'') of
                  Inl e \<Rightarrow> Inl e
                | Inr u \<Rightarrow>
                    (case original (tm, pg) of
                       (tm1, pg1) \<Rightarrow> Inr (app\<lparr>themeManager := Some tm1\<rparr>, pg1)))))"

section \<open>The claims restated in the words of the specification\<close>

text \<open>
  The email pattern as the specification words it: one or more characters that are
  neither white space nor \<open>@\<close>, then \<open>@\<close>, then one or more such characters, then a dot,
  then one or more such characters.
\<close>

definition nonSpaceNonAt :: "code_unit \<Rightarrow> bool" where
  "nonSpaceNonAt c \<longleftrightarrow> \<not> isWhiteSpace c \<and> c \<noteq> 0x40"

definition spec_email_pattern :: "jsstring \<Rightarrow> bool" where
  "spec_email_pattern s \<longleftrightarrow>
     (\<exists>local domain tld.
        s = local @ [0x40] @ domain @ [0x2E] @ tld \<and>
        local \<noteq> [] \<and> domain \<noteq> [] \<and> tld \<noteq> [] \<and>
        list_all nonSpaceNonAt local \<and> list_all nonSpaceNonAt domain \<and>
        list_all nonSpaceNonAt tld)"

section \<open>Sample pages\<close>

text \<open>A page with an empty, working session storage, a body without theme, and a
  \<open>theme-color\<close> meta element.\<close>

definition sample_page :: page where
  "sample_page =
     \<lparr>body_data_theme = None, body_classes = {}, meta_theme_color = Some (js ''#1a1a1a''),
      sessionStorage = \<lparr>items = Map.empty, read_fails = False, write_fails = False\<rparr>,
      timeouts = [], dispatched = []\<rparr>"

definition sample_button :: theme_button where
  "sample_button = \<lparr>icon = Some [], aria_label = None, aria_pressed = None\<rparr>"

text \<open>The same page after some script of the site has stored \<open>constructor\<close> under the
  theme key.\<close>

definition stale_page :: page where
  "stale_page =
     sample_page\<lparr>sessionStorage :=
       \<lparr>items = [THEME_STORAGE_KEY \<mapsto> js ''constructor''], read_fails = False,
        write_fails = False\<rparr>\<rparr>"

definition sample_links :: "link_element list" where
  "sample_links =
     [\<lparr>is_anchor = True, href = Some (js ''#sobre''), nav_class = True, active = True\<rparr>,
      \<lparr>is_anchor = True, href = Some (js ''#contato''), nav_class = True, active = False\<rparr>]"

text \<open>A contact form with all three inputs, their error elements and a submit button;
  \<open>sample_form n e m\<close> holds the given texts in its inputs.\<close>

definition sample_input :: "jsstring \<Rightarrow> input_element" where
  "sample_input v = \<lparr>el_value = v, error_class = False, aria_invalid = None\<rparr>"

definition sample_submit :: submit_button where
  "sample_submit =
     \<lparr>disabled = False, loading_class = False, submit_text_display = Some [],
      submit_loading_display = Some (js ''none'')\<rparr>"

definition sample_form :: "jsstring \<Rightarrow> jsstring \<Rightarrow> jsstring \<Rightarrow> form_validator" where
  "sample_form n e m =
     (FormValidator_new
        (\<lambda>f. Some (sample_input (case f of Name \<Rightarrow> n | Email \<Rightarrow> e | Message \<Rightarrow> m)))
        (\<lambda>f. Some \<lparr>textContent = [], display = []\<rparr>)
        (Some sample_submit) None False)\<lparr>activeElement := Some SubmitControl\<rparr>"

text \<open>The same form on a page whose markup lacks the \<open>#name\<close> input.\<close>

definition form_without_name :: form_validator where
  "form_without_name =
     (FormValidator_new
        (\<lambda>f. case f of Name \<Rightarrow> None | Email \<Rightarrow> Some (sample_input (js ''a@b''))
                     | Message \<Rightarrow> Some (sample_input (js ''hello'')))
        (\<lambda>f. Some \<lparr>textContent = [], display = []\<rparr>)
        (Some sample_submit) None False)\<lparr>activeElement := Some SubmitControl\<rparr>"

text \<open>The navigation manager of a page with two navigation links, the application built
  on the sample page, and a ThemeManager built on a page without toggle control.\<close>

definition sample_nav :: navigation_manager where
  "sample_nav = NavigationManager_new sample_links"

definition sample_app :: "portfolio_app \<times> page" where
  "sample_app =
     PortfolioApp_new (Some sample_button) sample_nav (sample_form [] [] []) sample_page"

definition headless_theme :: "theme_manager \<times> page" where
  "headless_theme = ThemeManager_new None sample_page"

text \<open>A submission in flight: the valid sample form, right after its submit was accepted.\<close>

definition in_flight_form :: form_validator where
  "in_flight_form =
     simulateFormSubmission_begin
       (sample_form (js ''Al'') (js ''a@b.co'') (js ''0123456789''))"

section \<open>The email pattern\<close>

lemma regex_test_Once:
  "regex_test ((a, Once) # ps) s \<longleftrightarrow> (\<exists>c cs. s = c # cs \<and> atom_matches a c \<and> regex_test ps cs)"
  by (cases s) auto

lemma regex_test_OneOrMore:
  "regex_test ((a, OneOrMore) # ps) s \<longleftrightarrow>
     (\<exists>u w. s = u @ w \<and> u \<noteq> [] \<and> list_all (atom_matches a) u \<and> regex_test ps w)"
proof (induction s)
  case Nil
  show ?case by simp
next
  case (Cons c cs)
  show ?case
  proof
    assume "regex_test ((a, OneOrMore) # ps) (c # cs)"
    then have m: "atom_matches a c"
      and alt: "regex_test ((a, OneOrMore) # ps) cs \<or> regex_test ps cs"
      by simp_all
    from alt show "\<exists>u w. c # cs = u @ w \<and> u \<noteq> [] \<and> list_all (atom_matches a) u \<and> regex_test ps w"
    proof
      assume "regex_test ((a, OneOrMore) # ps) cs"
      with Cons.IH obtain u w where "cs = u @ w" "list_all (atom_matches a) u" "regex_test ps w"
        by blast
      with m have "c # cs = (c # u) @ w \<and> c # u \<noteq> [] \<and> list_all (atom_matches a) (c # u) \<and> regex_test ps w"
        by simp
      then show ?thesis by blast
    next
      assume "regex_test ps cs"
      with m have "c # cs = [c] @ cs \<and> [c] \<noteq> [] \<and> list_all (atom_matches a) [c] \<and> regex_test ps cs"
        by simp
      then show ?thesis by blast
    qed
  next
    assume "\<exists>u w. c # cs = u @ w \<and> u \<noteq> [] \<and> list_all (atom_matches a) u \<and> regex_test ps w"
    then obtain u w where eq: "c # cs = u @ w" and ne: "u \<noteq> []"
      and all: "list_all (atom_matches a) u" and rest: "regex_test ps w"
      by blast
    from ne obtain d u' where u: "u = d # u'" by (cases u) auto
    with eq have dc: "d = c" and cs: "cs = u' @ w" by simp_all
    from all u dc have m: "atom_matches a c" and all': "list_all (atom_matches a) u'" by simp_all
    show "regex_test ((a, OneOrMore) # ps) (c # cs)"
    proof (cases "u' = []")
      case True
      with cs rest m show ?thesis by simp
    next
      case False
      with cs all' rest Cons.IH have "regex_test ((a, OneOrMore) # ps) cs" by blast
      with m show ?thesis by simp
    qed
  qed
qed

lemma negated_class_nonSpaceNonAt:
  "atom_matches (NegatedClass [ClassSpace, ClassChar 0x40]) = nonSpaceNonAt"
  by (rule ext) (simp add: nonSpaceNonAt_def)

lemma regex_test_OneOrMoreI:
  "u \<noteq> [] \<Longrightarrow> list_all (atom_matches a) u \<Longrightarrow> regex_test ps w \<Longrightarrow>
   regex_test ((a, OneOrMore) # ps) (u @ w)"
  using regex_test_OneOrMore by blast

lemma isValidEmail_iff_spec: "isValidEmail s \<longleftrightarrow> spec_email_pattern s"
proof
  assume "isValidEmail s"
  then show "spec_email_pattern s"
    unfolding isValidEmail_def emailRegex_def spec_email_pattern_def
      regex_test_OneOrMore regex_test_Once negated_class_nonSpaceNonAt
    by auto
next
  assume "spec_email_pattern s"
  then obtain l d t where s: "s = l @ [0x40] @ d @ [0x2E] @ t"
    and ne: "l \<noteq> []" "d \<noteq> []" "t \<noteq> []"
    and ok: "list_all nonSpaceNonAt l" "list_all nonSpaceNonAt d" "list_all nonSpaceNonAt t"
    unfolding spec_email_pattern_def by blast
  let ?C = "NegatedClass [ClassSpace, ClassChar 0x40]"
  have "regex_test [(?C, OneOrMore)] (t @ [])"
    using ne ok by (intro regex_test_OneOrMoreI) (simp_all add: negated_class_nonSpaceNonAt)
  then have "regex_test [(Literal 0x2E, Once), (?C, OneOrMore)] (0x2E # t)"
    by simp
  then have "regex_test [(?C, OneOrMore), (Literal 0x2E, Once), (?C, OneOrMore)] (d @ 0x2E # t)"
    using ne ok by (intro regex_test_OneOrMoreI) (simp_all add: negated_class_nonSpaceNonAt)
  then have "regex_test [(Literal 0x40, Once), (?C, OneOrMore), (Literal 0x2E, Once), (?C, OneOrMore)]
               (0x40 # d @ 0x2E # t)"
    by simp
  then have "regex_test emailRegex (l @ 0x40 # d @ 0x2E # t)"
    unfolding emailRegex_def
    using ne ok by (intro regex_test_OneOrMoreI) (simp_all add: negated_class_nonSpaceNonAt)
  with s show "isValidEmail s" by (simp add: isValidEmail_def)
qed

lemma spec_email_pattern_nonempty: "spec_email_pattern s \<Longrightarrow> s \<noteq> []"
  by (auto simp: spec_email_pattern_def)

section \<open>Validating one field\<close>

lemma clearFieldError_on_present:
  "element fld = Some el \<Longrightarrow> fst (clearFieldError_on fld) = Inr ()"
  by (simp add: clearFieldError_on_def Let_def split: option.splits)

lemma validateField_on_absent:
  "element fld = None \<Longrightarrow> validateField_on f fld = (Inr False, fld)"
  by (simp add: validateField_on_def)

lemma validateField_on_total:
  "fst (validateField_on f fld) = Inr True \<or> fst (validateField_on f fld) = Inr False"
  by (simp add: validateField_on_def clearFieldError_on_def show_error_and_fail_def
      showFieldError_on_def Let_def split: option.splits field_name.splits)

lemma validateField_on_flag:
  "element fld \<noteq> None \<Longrightarrow>
   isValid (snd (validateField_on f fld)) = (fst (validateField_on f fld) = Inr True)"
  by (auto simp add: validateField_on_def clearFieldError_on_def show_error_and_fail_def
      showFieldError_on_def Let_def split: option.splits field_name.splits)

lemma validateField_on_flag_absent:
  "element fld = None \<Longrightarrow> isValid (snd (validateField_on f fld)) = isValid fld"
  by (simp add: validateField_on_def)

lemma validateField_on_element:
  "element (snd (validateField_on f fld)) = None \<longleftrightarrow> element fld = None"
  by (auto simp add: validateField_on_def clearFieldError_on_def show_error_and_fail_def
      showFieldError_on_def Let_def split: option.splits field_name.splits)

lemma validateField_on_result:
  "element fld = Some el \<Longrightarrow>
   fst (validateField_on f fld) =
     Inr (trim (el_value el) \<noteq> [] \<and>
          (case f of Email \<Rightarrow> isValidEmail (trim (el_value el))
           | Message \<Rightarrow> 10 \<le> length (trim (el_value el))
           | Name \<Rightarrow> 2 \<le> length (trim (el_value el))))"
  by (auto simp add: validateField_on_def clearFieldError_on_def show_error_and_fail_def
      showFieldError_on_def Let_def split: option.splits field_name.splits)

lemma fst_on_field: "fst (on_field f m fv) = fst (m (form_fields fv f))"
  by (simp add: on_field_def split: prod.splits)

lemma snd_on_field:
  "snd (on_field f m fv) = fv\<lparr>form_fields := (form_fields fv)(f := snd (m (form_fields fv f)))\<rparr>"
  by (simp add: on_field_def split: prod.splits)

lemma all_field_names: "(\<forall>f. P f) \<longleftrightarrow> P Name \<and> P Email \<and> P Message"
  by (metis field_name.exhaust)

lemma validateField_total:
  "fst (validateField f fv) = Inr True \<or> fst (validateField f fv) = Inr False"
  using validateField_on_total [of f "form_fields fv f"]
  by (simp add: validateField_def fst_on_field)

lemma validate_each_step:
  "validate_each (f # fs) ok fv =
     validate_each fs (ok \<and> fst (validateField f fv) = Inr True) (snd (validateField f fv))"
proof -
  obtain r fv1 where eq: "validateField f fv = (r, fv1)"
    by (cases "validateField f fv")
  then have "r = Inr True \<or> r = Inr False"
    using validateField_total [of f fv] by simp
  then show ?thesis
  proof
    assume "r = Inr True"
    with eq show ?thesis by simp
  next
    assume "r = Inr False"
    with eq show ?thesis by simp
  qed
qed

lemma fst_validateAllFields:
  "fst (validateAllFields fv) = Inr (\<forall>f. fst (validateField f fv) = Inr True)"
  unfolding validateAllFields_def field_order_def validate_each_step all_field_names
  by (simp add: validateField_def fst_on_field snd_on_field)

lemma snd_validateAllFields:
  "snd (validateAllFields fv) =
     fv\<lparr>form_fields := (\<lambda>g. snd (validateField_on g (form_fields fv g)))\<rparr>"
proof -
  have "(((form_fields fv)(Name := a))(Email := b))(Message := c) =
        (\<lambda>g. case g of Name \<Rightarrow> a | Email \<Rightarrow> b | Message \<Rightarrow> c)" for a b c
    by (rule ext) (simp split: field_name.splits)
  moreover have "(\<lambda>g. snd (validateField_on g (form_fields fv g))) =
      (\<lambda>g. case g of Name \<Rightarrow> snd (validateField_on Name (form_fields fv Name))
            | Email \<Rightarrow> snd (validateField_on Email (form_fields fv Email))
            | Message \<Rightarrow> snd (validateField_on Message (form_fields fv Message)))"
    by (rule ext) (simp split: field_name.splits)
  ultimately show ?thesis
    unfolding validateAllFields_def field_order_def validate_each_step
    by (simp add: validateField_def fst_on_field snd_on_field)
qed

section \<open>Submitting the form\<close>

lemma handleSubmit_eq:
  "handleSubmit fv =
     (if isSubmitting fv then (Inr (), fv)
      else if (\<forall>f. fst (validateField f fv) = Inr True)
      then (Inr (), simulateFormSubmission_begin (snd (validateAllFields fv)))
      else (Inr (), focusFirstError (snd (validateAllFields fv))))"
proof -
  obtain r fv1 where eq: "validateAllFields fv = (r, fv1)"
    by (cases "validateAllFields fv")
  then have r: "r = Inr (\<forall>f. fst (validateField f fv) = Inr True)"
    using fst_validateAllFields [of fv] by simp
  show ?thesis
    unfolding handleSubmit_def eq r by simp
qed

lemma isValid_after_validation:
  assumes "fields_consistent fv"
  shows "isValid (form_fields (snd (validateAllFields fv)) g) = (fst (validateField g fv) = Inr True)"
proof (cases "element (form_fields fv g)")
  case None
  with assms have "\<not> isValid (form_fields fv g)"
    by (simp add: fields_consistent_def)
  with None show ?thesis
    by (simp add: snd_validateAllFields validateField_def fst_on_field validateField_on_absent)
next
  case (Some el)
  then show ?thesis
    by (simp add: snd_validateAllFields validateField_def fst_on_field validateField_on_flag)
qed

lemma element_after_validation:
  "element (form_fields (snd (validateAllFields fv)) g) = None \<longleftrightarrow>
   element (form_fields fv g) = None"
  by (simp add: snd_validateAllFields validateField_on_element)

lemma rest_after_validation:
  "isSubmitting (snd (validateAllFields fv)) = isSubmitting fv"
  "scheduled (snd (validateAllFields fv)) = scheduled fv"
  "activeElement (snd (validateAllFields fv)) = activeElement fv"
  "submitButton (snd (validateAllFields fv)) = submitButton fv"
  by (simp_all add: snd_validateAllFields)

lemma focusFirstError_rest:
  "isSubmitting (focusFirstError fv) = isSubmitting fv"
  "scheduled (focusFirstError fv) = scheduled fv"
  "form_fields (focusFirstError fv) = form_fields fv"
  by (simp_all add: focusFirstError_def split: option.splits)

text \<open>
  Claim C5, as amended. A submit made while no submission is in flight, on a form where
  some field fails validation, attempts no submission: \<open>isSubmitting\<close> stays false and
  no timer is started. Focus moves to the first field in declared order (name, email,
  message) that failed validation when the input of that field exists; when that input
  is missing from the page, focus stays where it was. The state is any state the
  validator can reach (\<open>fields_consistent\<close>, see \<open>fields_consistent_reachable\<close>).
\<close>

theorem C5_amended:
  assumes idle: "\<not> isSubmitting fv"
    and cons: "fields_consistent fv"
    and bad: "fst (validateField f fv) \<noteq> Inr True"
  shows "\<exists>g. find (\<lambda>f. fst (validateField f fv) \<noteq> Inr True) field_order = Some g \<and>
             fst (handleSubmit fv) = Inr () \<and>
             \<not> isSubmitting (snd (handleSubmit fv)) \<and>
             scheduled (snd (handleSubmit fv)) = scheduled fv \<and>
             activeElement (snd (handleSubmit fv)) =
               (if element (form_fields fv g) = None then activeElement fv
                else Some (FieldInput g))"
proof -
  let ?fv1 = "snd (validateAllFields fv)"
  have "f \<in> set field_order"
    by (cases f) (simp_all add: field_order_def)
  with bad have "find (\<lambda>f. fst (validateField f fv) \<noteq> Inr True) field_order \<noteq> None"
    by (auto simp: find_None_iff)
  then obtain g where g: "find (\<lambda>f. fst (validateField f fv) \<noteq> Inr True) field_order = Some g"
    by blast
  have pred: "(\<lambda>h. \<not> isValid (form_fields ?fv1 h)) = (\<lambda>h. fst (validateField h fv) \<noteq> Inr True)"
    using isValid_after_validation [OF cons] by (intro ext) simp
  have hs: "handleSubmit fv = (Inr (), focusFirstError ?fv1)"
    using idle bad by (auto simp: handleSubmit_eq)
  have focus: "activeElement (focusFirstError ?fv1) =
                 (if element (form_fields fv g) = None then activeElement fv
                  else Some (FieldInput g))"
    using g element_after_validation [of fv g]
    by (auto simp: focusFirstError_def pred rest_after_validation split: option.splits)
  show ?thesis
    using g hs focus idle
    by (simp add: focusFirstError_rest rest_after_validation)
qed

lemma fields_consistent_new:
  "fields_consistent (FormValidator_new inputs errors submit dialog close_found)"
  by (simp add: fields_consistent_def FormValidator_new_def)

lemma fields_consistent_validateField:
  "fields_consistent fv \<Longrightarrow> fields_consistent (snd (validateField g fv))"
  by (auto simp: fields_consistent_def validateField_def snd_on_field validateField_on_element
      validateField_on_absent)

lemma fields_consistent_validateAllFields:
  "fields_consistent fv \<Longrightarrow> fields_consistent (snd (validateAllFields fv))"
  by (auto simp: fields_consistent_def snd_validateAllFields validateField_on_element
      validateField_on_absent)

text \<open>
  Claim C3. While \<open>isSubmitting\<close> is true, a submit leaves the whole state as it is: no
  field is validated, the submitting state is not entered again, and no second latency
  timer is started. The state right after an accepted submit is such a state.
\<close>

theorem C3_in_flight:
  assumes "isSubmitting fv"
  shows "handleSubmit fv = (Inr (), fv) \<and>
         isSubmitting (simulateFormSubmission_begin fv0) \<and>
         handleSubmit (simulateFormSubmission_begin fv0) = (Inr (), simulateFormSubmission_begin fv0)"
  using assms
  by (simp add: handleSubmit_def simulateFormSubmission_begin_def setSubmitButtonState_def Let_def
      split: option.splits)

lemma validateField_absent:
  "element (form_fields fv f) = None \<Longrightarrow> validateField f fv = (Inr False, fv)"
  by (simp add: validateField_def on_field_def validateField_on_absent)

text \<open>
  Claim C10. For a field whose input is missing, \<open>validateField\<close> returns false and
  changes nothing (no error message is shown); full validation of such a form returns
  false, and a submit neither sets \<open>isSubmitting\<close> nor starts the latency timer.
\<close>

theorem C10_absent:
  assumes "element (form_fields fv f) = None"
  shows "validateField f fv = (Inr False, fv) \<and>
         fst (validateAllFields fv) = Inr False \<and>
         errorElement (form_fields (snd (validateAllFields fv)) f) = errorElement (form_fields fv f) \<and>
         fst (handleSubmit fv) = Inr () \<and>
         isSubmitting (snd (handleSubmit fv)) = isSubmitting fv \<and>
         scheduled (snd (handleSubmit fv)) = scheduled fv"
proof -
  have vf: "validateField f fv = (Inr False, fv)"
    using assms by (rule validateField_absent)
  then have nall: "\<not> (\<forall>g. fst (validateField g fv) = Inr True)"
    by (metis fst_conv Inr_inject)
  have "errorElement (form_fields (snd (validateAllFields fv)) f) = errorElement (form_fields fv f)"
    using assms by (simp add: snd_validateAllFields validateField_on_absent)
  moreover have "handleSubmit fv =
      (if isSubmitting fv then (Inr (), fv)
       else (Inr (), focusFirstError (snd (validateAllFields fv))))"
    using nall by (simp only: handleSubmit_eq if_False)
  moreover have "fst (validateAllFields fv) = Inr False"
    using nall by (simp only: fst_validateAllFields)
  ultimately show ?thesis
    using vf by (simp add: focusFirstError_rest rest_after_validation)
qed

section \<open>The sample forms\<close>

lemma sample_form_fields:
  "form_fields (sample_form n e m) f =
     \<lparr>element = Some (sample_input (case f of Name \<Rightarrow> n | Email \<Rightarrow> e | Message \<Rightarrow> m)),
      errorElement = Some \<lparr>textContent = [], display = []\<rparr>, isValid = False, fvalue = []\<rparr>"
  "isSubmitting (sample_form n e m) = False"
  "activeElement (sample_form n e m) = Some SubmitControl"
  "scheduled (sample_form n e m) = []"
  "submitButton (sample_form n e m) = Some sample_submit"
  by (simp_all add: sample_form_def FormValidator_new_def)

lemma form_without_name_fields:
  "form_fields form_without_name Name =
     \<lparr>element = None, errorElement = Some \<lparr>textContent = [], display = []\<rparr>,
      isValid = False, fvalue = []\<rparr>"
  "isSubmitting form_without_name = False"
  "activeElement form_without_name = Some SubmitControl"
  "scheduled form_without_name = []"
  by (simp_all add: form_without_name_def FormValidator_new_def)

text \<open>Claim C3 at the sample form, once its submit has been accepted.\<close>

theorem C3_in_flight_witness:
  "isSubmitting in_flight_form \<and> handleSubmit in_flight_form = (Inr (), in_flight_form)"
proof -
  have h: "isSubmitting in_flight_form"
    by (simp add: in_flight_form_def simulateFormSubmission_begin_def setSubmitButtonState_def
        Let_def split: option.splits)
  from C3_in_flight [OF h] h show ?thesis by simp
qed

text \<open>Claim C10 at the form whose page lacks the name input.\<close>

theorem C10_absent_witness:
  "element (form_fields form_without_name Name) = None \<and>
   validateField Name form_without_name = (Inr False, form_without_name) \<and>
   fst (validateAllFields form_without_name) = Inr False \<and>
   scheduled (snd (handleSubmit form_without_name)) = []"
proof -
  have h: "element (form_fields form_without_name Name) = None"
    by (simp add: form_without_name_fields)
  from C10_absent [OF h] h show ?thesis
    by (simp add: form_without_name_fields)
qed

text \<open>
  Claim C5 as first stated fails on the form whose page lacks the name input: the submit
  is made while idle, the name field fails validation and is the first field marked
  invalid, yet focus stays on the submit control.
\<close>

theorem C5_counterexample:
  "\<not> isSubmitting form_without_name \<and>
   fst (validateField Name form_without_name) = Inr False \<and>
   find (\<lambda>f. \<not> isValid (form_fields (snd (handleSubmit form_without_name)) f)) field_order = Some Name \<and>
   activeElement form_without_name = Some SubmitControl \<and>
   activeElement (snd (handleSubmit form_without_name)) = Some SubmitControl"
proof -
  have h: "element (form_fields form_without_name Name) = None"
    by (simp add: form_without_name_fields)
  have cons: "fields_consistent form_without_name"
    by (simp add: fields_consistent_def form_without_name_def FormValidator_new_def)
  have idle: "\<not> isSubmitting form_without_name"
    by (simp add: form_without_name_fields)
  have bad: "fst (validateField Name form_without_name) = Inr False"
    using validateField_absent [OF h] by simp
  then have nall: "\<not> (\<forall>g. fst (validateField g form_without_name) = Inr True)"
    by (metis Inr_inject)
  have hs: "snd (handleSubmit form_without_name) =
              focusFirstError (snd (validateAllFields form_without_name))"
    using idle nall by (simp only: handleSubmit_eq if_False snd_conv)
  have flag: "\<not> isValid (form_fields (snd (validateAllFields form_without_name)) Name)"
    using isValid_after_validation [OF cons, of Name] bad by simp
  have el: "element (form_fields (snd (validateAllFields form_without_name)) Name) = None"
    using element_after_validation [of form_without_name Name] h by simp
  have "focusFirstError (snd (validateAllFields form_without_name)) =
          snd (validateAllFields form_without_name)"
    using flag el by (simp add: focusFirstError_def field_order_def)
  with hs flag idle bad show ?thesis
    by (simp add: rest_after_validation form_without_name_fields field_order_def)
qed

text \<open>Claim C5, as amended, at a form whose email and message are invalid: focus moves
  to the email input.\<close>

theorem C5_amended_witness:
  "\<not> isSubmitting (sample_form (js ''Al'') (js ''a@b'') (js ''short'')) \<and>
   fields_consistent (sample_form (js ''Al'') (js ''a@b'') (js ''short'')) \<and>
   fst (validateField Message (sample_form (js ''Al'') (js ''a@b'') (js ''short''))) \<noteq> Inr True \<and>
   (\<exists>g. find (\<lambda>f. fst (validateField f (sample_form (js ''Al'') (js ''a@b'') (js ''short'')))
                    \<noteq> Inr True) field_order = Some g \<and>
        activeElement (snd (handleSubmit (sample_form (js ''Al'') (js ''a@b'') (js ''short'')))) =
          Some (FieldInput g))"
proof -
  let ?F = "sample_form (js ''Al'') (js ''a@b'') (js ''short'')"
  have idle: "\<not> isSubmitting ?F"
    by (simp add: sample_form_fields)
  have cons: "fields_consistent ?F"
    by (simp add: fields_consistent_def sample_form_fields)
  have bad: "fst (validateField Message ?F) \<noteq> Inr True"
    by (simp add: validateField_def fst_on_field sample_form_fields sample_input_def
        validateField_on_result [where el = "sample_input (js ''short'')"] trim_def js_def
        isWhiteSpace_def)
  have "element (form_fields ?F g) \<noteq> None" for g
    by (simp add: sample_form_fields)
  with C5_amended [OF idle cons bad] idle cons bad show ?thesis
    by auto
qed


lemma validateField_result:
  "element (form_fields fv f) = Some el \<Longrightarrow>
   fst (validateField f fv) =
     Inr (trim (el_value el) \<noteq> [] \<and>
          (case f of Email \<Rightarrow> isValidEmail (trim (el_value el))
           | Message \<Rightarrow> 10 \<le> length (trim (el_value el))
           | Name \<Rightarrow> 2 \<le> length (trim (el_value el))))"
  by (simp add: validateField_def fst_on_field validateField_on_result)

lemma validateField_flag:
  "element (form_fields fv f) = Some el \<Longrightarrow>
   isValid (form_fields (snd (validateField f fv)) f) = (fst (validateField f fv) = Inr True)"
  by (simp add: validateField_def fst_on_field snd_on_field validateField_on_flag)

lemma validateField_on_required:
  "element fld = Some el \<Longrightarrow> errorElement fld = Some ee \<Longrightarrow> trim (el_value el) = [] \<Longrightarrow>
   errorElement (snd (validateField_on f fld)) =
     Some (ee\<lparr>textContent := MSG_REQUIRED, display := js ''block''\<rparr>)"
  by (simp add: validateField_on_def clearFieldError_on_def show_error_and_fail_def
      showFieldError_on_def Let_def)

lemma sample_values:
  "trim (js ''a@b.co'') = js ''a@b.co''"
  "trim (js ''a@b'') = js ''a@b''"
  "trim (js ''a b@c.com'') = js ''a b@c.com''"
  "trim (js ''Al'') = js ''Al''"
  "trim (js ''A'') = js ''A''"
  "trim (js ''0123456789'') = js ''0123456789''"
  "trim (js ''012345678'') = js ''012345678''"
  by (simp_all add: trim_def js_def isWhiteSpace_def)

lemma sample_emails:
  "isValidEmail (js ''a@b.co'')"
  "\<not> isValidEmail (js ''a@b'')"
  "\<not> isValidEmail (js ''a b@c.com'')"
  by (simp_all add: isValidEmail_def emailRegex_def js_def isWhiteSpace_def)

text \<open>
  Claim C6. When the email input exists, \<open>validateField\<close> returns true, and marks the
  field valid, exactly when the trimmed value is non-empty and has the shape the
  specification describes: one or more characters that are neither white space nor
  \<open>@\<close>, an \<open>@\<close>, one or more such characters, a dot, one or more such characters.
  \<open>a@b.co\<close> is valid; \<open>a@b\<close> and \<open>a b@c.com\<close> are not.
\<close>

theorem C6_email:
  assumes "element (form_fields fv Email) = Some el"
  shows "fst (validateField Email fv) =
           Inr (trim (el_value el) \<noteq> [] \<and> spec_email_pattern (trim (el_value el))) \<and>
         isValid (form_fields (snd (validateField Email fv)) Email) =
           (trim (el_value el) \<noteq> [] \<and> spec_email_pattern (trim (el_value el))) \<and>
         fst (validateField Email (sample_form n (js ''a@b.co'') m)) = Inr True \<and>
         fst (validateField Email (sample_form n (js ''a@b'') m)) = Inr False \<and>
         fst (validateField Email (sample_form n (js ''a b@c.com'') m)) = Inr False"
proof -
  have general: "fst (validateField Email fv) =
      Inr (trim (el_value el) \<noteq> [] \<and> spec_email_pattern (trim (el_value el)))"
    using validateField_result [OF assms] by (simp add: isValidEmail_iff_spec)
  moreover have "isValid (form_fields (snd (validateField Email fv)) Email) =
      (trim (el_value el) \<noteq> [] \<and> spec_email_pattern (trim (el_value el)))"
    using validateField_flag [OF assms] general by simp
  moreover have "fst (validateField Email (sample_form n (js ''a@b.co'') m)) = Inr True"
    by (simp add: validateField_result [where el = "sample_input (js ''a@b.co'')"]
        sample_form_fields sample_input_def sample_values sample_emails) (simp add: js_def)
  moreover have "fst (validateField Email (sample_form n (js ''a@b'') m)) = Inr False"
    by (simp add: validateField_result [where el = "sample_input (js ''a@b'')"]
        sample_form_fields sample_input_def sample_values sample_emails)
  moreover have "fst (validateField Email (sample_form n (js ''a b@c.com'') m)) = Inr False"
    by (simp add: validateField_result [where el = "sample_input (js ''a b@c.com'')"]
        sample_form_fields sample_input_def sample_values sample_emails)
  ultimately show ?thesis by blast
qed

text \<open>Claim C6 at the sample form holding \<open>a@b.co\<close>.\<close>

theorem C6_email_witness:
  "element (form_fields (sample_form [] (js ''a@b.co'') []) Email) = Some (sample_input (js ''a@b.co'')) \<and>
   fst (validateField Email (sample_form [] (js ''a@b.co'') [])) = Inr True \<and>
   spec_email_pattern (js ''a@b.co'')"
proof -
  have h: "element (form_fields (sample_form [] (js ''a@b.co'') []) Email) =
             Some (sample_input (js ''a@b.co''))"
    by (simp add: sample_form_fields)
  note c = C6_email [OF h, of "[]" "[]"]
  have a: "fst (validateField Email (sample_form [] (js ''a@b.co'') [])) =
             Inr (trim (el_value (sample_input (js ''a@b.co''))) \<noteq> [] \<and>
                  spec_email_pattern (trim (el_value (sample_input (js ''a@b.co'')))))"
    using c by (rule conjunct1)
  have b: "fst (validateField Email (sample_form [] (js ''a@b.co'') [])) = Inr True"
    using c by (elim conjE)
  have "Inr (trim (el_value (sample_input (js ''a@b.co''))) \<noteq> [] \<and>
             spec_email_pattern (trim (el_value (sample_input (js ''a@b.co''))))) =
          (Inr True :: js_error + bool)"
    using b unfolding a .
  then have "spec_email_pattern (trim (el_value (sample_input (js ''a@b.co''))))"
    by simp
  then have "spec_email_pattern (js ''a@b.co'')"
    by (simp add: sample_input_def sample_values)
  with h b show ?thesis by simp
qed

text \<open>
  Claim C7. When its input exists, the name field is valid exactly when its trimmed value
  has at least 2 code units, and the message field exactly when its trimmed value has at
  least 10. The required check comes first: an empty trimmed value shows the
  required-field message. \<open>Al\<close> is a valid name and \<open>A\<close> is not; a message of 10
  characters is valid and one of 9 is not.
\<close>

theorem C7_min_length:
  shows "(element (form_fields fv Name) = Some el \<longrightarrow>
            fst (validateField Name fv) = Inr (2 \<le> length (trim (el_value el))) \<and>
            isValid (form_fields (snd (validateField Name fv)) Name) =
              (2 \<le> length (trim (el_value el)))) \<and>
         (element (form_fields fv Message) = Some el \<longrightarrow>
            fst (validateField Message fv) = Inr (10 \<le> length (trim (el_value el))) \<and>
            isValid (form_fields (snd (validateField Message fv)) Message) =
              (10 \<le> length (trim (el_value el)))) \<and>
         (element (form_fields fv f) = Some el \<and> errorElement (form_fields fv f) = Some ee \<and>
          trim (el_value el) = [] \<longrightarrow>
            errorElement (form_fields (snd (validateField f fv)) f) =
              Some (ee\<lparr>textContent := MSG_REQUIRED, display := js ''block''\<rparr>)) \<and>
         fst (validateField Name (sample_form (js ''Al'') e m)) = Inr True \<and>
         fst (validateField Name (sample_form (js ''A'') e m)) = Inr False \<and>
         fst (validateField Message (sample_form n e (js ''0123456789''))) = Inr True \<and>
         fst (validateField Message (sample_form n e (js ''012345678''))) = Inr False"
proof -
  have name: "fst (validateField Name fv) = Inr (2 \<le> length (trim (el_value el))) \<and>
      isValid (form_fields (snd (validateField Name fv)) Name) = (2 \<le> length (trim (el_value el)))"
    if h: "element (form_fields fv Name) = Some el"
  proof -
    have "fst (validateField Name fv) = Inr (2 \<le> length (trim (el_value el)))"
      using validateField_result [OF h] by auto
    with validateField_flag [OF h] show ?thesis by simp
  qed
  have message: "fst (validateField Message fv) = Inr (10 \<le> length (trim (el_value el))) \<and>
      isValid (form_fields (snd (validateField Message fv)) Message) =
        (10 \<le> length (trim (el_value el)))"
    if h: "element (form_fields fv Message) = Some el"
  proof -
    have "fst (validateField Message fv) = Inr (10 \<le> length (trim (el_value el)))"
      using validateField_result [OF h] by auto
    with validateField_flag [OF h] show ?thesis by simp
  qed
  have required: "errorElement (form_fields (snd (validateField f fv)) f) =
      Some (ee\<lparr>textContent := MSG_REQUIRED, display := js ''block''\<rparr>)"
    if "element (form_fields fv f) = Some el" "errorElement (form_fields fv f) = Some ee"
      "trim (el_value el) = []"
    using that by (simp add: validateField_def snd_on_field validateField_on_required)
  have ex1: "fst (validateField Name (sample_form (js ''Al'') e m)) = Inr True"
    by (simp add: validateField_result [where el = "sample_input (js ''Al'')"]
        sample_form_fields sample_input_def sample_values) (simp add: js_def)
  have ex2: "fst (validateField Name (sample_form (js ''A'') e m)) = Inr False"
    by (simp add: validateField_result [where el = "sample_input (js ''A'')"]
        sample_form_fields sample_input_def sample_values) (simp add: js_def)
  have ex3: "fst (validateField Message (sample_form n e (js ''0123456789''))) = Inr True"
    by (simp add: validateField_result [where el = "sample_input (js ''0123456789'')"]
        sample_form_fields sample_input_def sample_values) (simp add: js_def)
  have ex4: "fst (validateField Message (sample_form n e (js ''012345678''))) = Inr False"
    by (simp add: validateField_result [where el = "sample_input (js ''012345678'')"]
        sample_form_fields sample_input_def sample_values) (simp add: js_def)
  from name message required ex1 ex2 ex3 ex4 show ?thesis by blast
qed

text \<open>Claim C7 at sample forms: a name of two letters, a message of nine characters,
  and an empty name.\<close>

theorem C7_min_length_witness:
  "element (form_fields (sample_form (js ''Al'') [] []) Name) = Some (sample_input (js ''Al'')) \<and>
   fst (validateField Name (sample_form (js ''Al'') [] [])) = Inr True \<and>
   element (form_fields (sample_form [] [] (js ''012345678'')) Message) =
     Some (sample_input (js ''012345678'')) \<and>
   fst (validateField Message (sample_form [] [] (js ''012345678''))) = Inr False \<and>
   errorElement (form_fields (snd (validateField Name (sample_form [] [] [])) ) Name) =
     Some \<lparr>textContent = MSG_REQUIRED, display = js ''block''\<rparr>"
proof -
  have h1: "element (form_fields (sample_form (js ''Al'') [] []) Name) = Some (sample_input (js ''Al''))"
    and h2: "element (form_fields (sample_form [] [] (js ''012345678'')) Message) =
               Some (sample_input (js ''012345678''))"
    and h3: "element (form_fields (sample_form [] [] []) Name) = Some (sample_input [])"
            "errorElement (form_fields (sample_form [] [] []) Name) =
               Some \<lparr>textContent = [], display = []\<rparr>"
            "trim (el_value (sample_input [])) = []"
    by (simp_all add: sample_form_fields sample_input_def trim_def)
  have "errorElement (form_fields (snd (validateField Name (sample_form [] [] [])) ) Name) =
     Some \<lparr>textContent = MSG_REQUIRED, display = js ''block''\<rparr>"
    using C7_min_length [of "sample_form [] [] []" "sample_input []" Name
        "\<lparr>textContent = [], display = []\<rparr>" "[]" "[]" "[]"] h3
    by simp
  moreover have "fst (validateField Name (sample_form (js ''Al'') [] [])) = Inr True"
    using C7_min_length [of "sample_form [] [] []" "sample_input []" Name
        "\<lparr>textContent = [], display = []\<rparr>" "[]" "[]" "[]"] by blast
  moreover have "fst (validateField Message (sample_form [] [] (js ''012345678''))) = Inr False"
    using C7_min_length [of "sample_form [] [] []" "sample_input []" Name
        "\<lparr>textContent = [], display = []\<rparr>" "[]" "[]" "[]"] by blast
  ultimately show ?thesis using h1 h2 by simp
qed

section \<open>The simulated submission\<close>

lemma clear_each_frame:
  "submitButton (snd (clear_each fs fv)) = submitButton fv"
proof (induction fs arbitrary: fv)
  case Nil
  show ?case by simp
next
  case (Cons f fs)
  obtain r fv1 where eq: "clearFieldError f fv = (r, fv1)"
    by (cases "clearFieldError f fv")
  then have "fv1 = snd (on_field f clearFieldError_on fv)"
    by (simp add: clearFieldError_def)
  then have fv1: "submitButton fv1 = submitButton fv"
    by (simp add: snd_on_field)
  show ?case
  proof (cases r)
    case (Inl e)
    with eq fv1 show ?thesis by simp
  next
    case (Inr u)
    with eq fv1 Cons.IH [of fv1] show ?thesis by simp
  qed
qed

lemma clearForm_submitButton: "submitButton (snd (clearForm fv)) = submitButton fv"
proof -
  have "submitButton
          (foldl (\<lambda>s fieldName.
                    s\<lparr>form_fields := (form_fields s)(fieldName := reset_field (form_fields s fieldName))\<rparr>)
             fv field_order) = submitButton fv"
    by (simp add: field_order_def)
  then show ?thesis
    by (simp add: clearForm_def clearAllErrors_def clear_each_frame)
qed

lemma showSuccessMessage_submitButton: "submitButton (showSuccessMessage fv) = submitButton fv"
  by (simp add: showSuccessMessage_def Let_def split: option.splits)

lemma showErrorMessage_facts:
  "submitButton (showErrorMessage msg fv) = submitButton fv"
  "successModal (showErrorMessage msg fv) = successModal fv"
  "successMessage (showErrorMessage msg fv) = successMessage fv"
  "\<exists>m. formErrorMessage (showErrorMessage msg fv) = Some m \<and> msg_text m = msg \<and>
       msg_display m = js ''block''"
  by (simp_all add: showErrorMessage_def Let_def)

lemma setSubmitButtonState_facts:
  "isSubmitting (setSubmitButtonState b fv) = isSubmitting fv"
  "successModal (setSubmitButtonState b fv) = successModal fv"
  "successMessage (setSubmitButtonState b fv) = successMessage fv"
  "formErrorMessage (setSubmitButtonState b fv) = formErrorMessage fv"
  "submitButton (setSubmitButtonState b fv) = None \<longleftrightarrow> submitButton fv = None"
  by (simp_all add: setSubmitButtonState_def split: option.splits)

lemma setSubmitButtonState_idle:
  "submitButton fv \<noteq> None \<Longrightarrow>
   \<exists>b. submitButton (setSubmitButtonState False fv) = Some b \<and> \<not> disabled b \<and> \<not> loading_class b"
  by (auto simp add: setSubmitButtonState_def split: option.splits)

lemma begin_facts:
  "successModal (simulateFormSubmission_begin fv) = successModal fv"
  "successMessage (simulateFormSubmission_begin fv) = successMessage fv"
  "submitButton (simulateFormSubmission_begin fv) = None \<longleftrightarrow> submitButton fv = None"
  by (simp_all add: simulateFormSubmission_begin_def Let_def setSubmitButtonState_facts)

lemma resume_cleanup:
  "\<not> isSubmitting (simulateFormSubmission_resume latency fv) \<and>
   (submitButton fv \<noteq> None \<longrightarrow>
      (\<exists>b. submitButton (simulateFormSubmission_resume latency fv) = Some b \<and>
           \<not> disabled b \<and> \<not> loading_class b))"
proof -
  define tried where "tried =
    (case latency of Some e \<Rightarrow> (Inl e, fv) | None \<Rightarrow> clearForm (showSuccessMessage fv))"
  define caught where "caught =
    (case tried of (Inl e, fv1) \<Rightarrow> showErrorMessage MSG_SUBMIT_ERROR fv1 | (Inr u, fv1) \<Rightarrow> fv1)"
  have r: "simulateFormSubmission_resume latency fv =
             setSubmitButtonState False (caught\<lparr>isSubmitting := False\<rparr>)"
    by (simp add: simulateFormSubmission_resume_def tried_def caught_def Let_def)
  obtain t fv1 where tried: "tried = (t, fv1)"
    by (cases tried)
  have "submitButton (snd tried) = submitButton fv"
    by (simp add: tried_def clearForm_submitButton showSuccessMessage_submitButton
        split: option.splits)
  with tried have "submitButton fv1 = submitButton fv"
    by simp
  then have "submitButton caught = submitButton fv"
    by (cases t) (simp_all add: caught_def tried showErrorMessage_facts)
  then have "submitButton (caught\<lparr>isSubmitting := False\<rparr>) \<noteq> None" if "submitButton fv \<noteq> None"
    using that by simp
  from setSubmitButtonState_idle [OF this] show ?thesis
    by (simp add: r setSubmitButtonState_facts)
qed

lemma resume_failure:
  "(\<exists>m. formErrorMessage (simulateFormSubmission_resume (Some e) fv) = Some m \<and>
        msg_text m = MSG_SUBMIT_ERROR \<and> msg_display m = js ''block'') \<and>
   successModal (simulateFormSubmission_resume (Some e) fv) = successModal fv \<and>
   successMessage (simulateFormSubmission_resume (Some e) fv) = successMessage fv"
  by (simp add: simulateFormSubmission_resume_def setSubmitButtonState_facts showErrorMessage_def
      Let_def)

text \<open>
  Claim C4. However the awaited latency settles, the submission routine ends with
  \<open>isSubmitting\<close> false and the submit control (when the form has one) enabled and out
  of its loading state. When the wait fails, the generic error message is shown and the
  success indicators (modal and inline message) are left as they were.
\<close>

theorem C4_cleanup:
  "\<not> isSubmitting (simulateFormSubmission latency fv) \<and>
   (submitButton fv \<noteq> None \<longrightarrow>
      (\<exists>b. submitButton (simulateFormSubmission latency fv) = Some b \<and>
           \<not> disabled b \<and> \<not> loading_class b)) \<and>
   (latency = Some e \<longrightarrow>
      (\<exists>m. formErrorMessage (simulateFormSubmission latency fv) = Some m \<and>
           msg_text m = MSG_SUBMIT_ERROR \<and> msg_display m = js ''block'') \<and>
      successModal (simulateFormSubmission latency fv) = successModal fv \<and>
      successMessage (simulateFormSubmission latency fv) = successMessage fv)"
  using resume_cleanup [of latency "simulateFormSubmission_begin fv"]
    resume_failure [of e "simulateFormSubmission_begin fv"]
  by (auto simp add: simulateFormSubmission_def begin_facts)

text \<open>Claim C4 at a sample form whose latency wait is rejected.\<close>

theorem C4_cleanup_witness:
  "submitButton in_flight_form \<noteq> None \<and>
   \<not> isSubmitting (simulateFormSubmission (Some Rejected) in_flight_form) \<and>
   (\<exists>b. submitButton (simulateFormSubmission (Some Rejected) in_flight_form) = Some b \<and>
        \<not> disabled b \<and> \<not> loading_class b) \<and>
   (\<exists>m. formErrorMessage (simulateFormSubmission (Some Rejected) in_flight_form) = Some m \<and>
        msg_text m = MSG_SUBMIT_ERROR \<and> msg_display m = js ''block'') \<and>
   successMessage (simulateFormSubmission (Some Rejected) in_flight_form) = None"
proof -
  have h: "submitButton in_flight_form \<noteq> None"
    by (simp add: in_flight_form_def begin_facts sample_form_fields)
  have s: "successMessage in_flight_form = None"
    by (simp add: in_flight_form_def begin_facts sample_form_def FormValidator_new_def)
  from C4_cleanup [of "Some Rejected" in_flight_form Rejected] h s show ?thesis
    by simp
qed

section \<open>The active section\<close>

lemma foldl_set_active_class_section:
  "currentSection (foldl (\<lambda>s i. set_active_class v i s) nm is) = currentSection nm"
  by (induction "is" arbitrary: nm) (simp_all add: set_active_class_def)

lemma currentSection_set_active_class:
  "currentSection (set_active_class v i nm) = currentSection nm"
  by (simp add: set_active_class_def)

lemma currentSection_setActiveSection: "currentSection (setActiveSection x nm) = x"
  by (simp add: setActiveSection_def Let_def foldl_set_active_class_section
      currentSection_set_active_class split: option.splits)

lemma setActiveSection_same: "currentSection nm = x \<Longrightarrow> setActiveSection x nm = nm"
  by (simp add: setActiveSection_def)

lemma observer_callback_same:
  "currentSection nm = x \<Longrightarrow> observer_callback (replicate n (True, x)) nm = nm"
  by (induction n) (simp_all add: observer_callback_def setActiveSection_same)

text \<open>
  Claim C9. \<open>setActiveSection\<close> with the current section leaves the whole state as it
  is, the class lists and the count of class-list calls included; so activating a section
  twice is the same as once, and any number of intersection reports for one section
  activates it exactly once.
\<close>

theorem C9_same_section:
  "setActiveSection (currentSection nm) nm = nm \<and>
   setActiveSection x (setActiveSection x nm) = setActiveSection x nm \<and>
   observer_callback (replicate (Suc n) (True, x)) nm = setActiveSection x nm"
proof -
  have "observer_callback (replicate (Suc n) (True, x)) nm =
          observer_callback (replicate n (True, x)) (setActiveSection x nm)"
    by (simp add: observer_callback_def)
  then show ?thesis
    by (simp add: setActiveSection_same observer_callback_same currentSection_setActiveSection)
qed

text \<open>Claim C9 on the sample navigation: four reports for \<open>contato\<close> make the three
  class-list calls of a single activation.\<close>

theorem C9_same_section_witness:
  "classList_calls (setActiveSection (js ''contato'') sample_nav) = 3 \<and>
   classList_calls (observer_callback (replicate 4 (True, js ''contato'')) sample_nav) = 3 \<and>
   map active (document_links (observer_callback (replicate 4 (True, js ''contato'')) sample_nav)) =
     [False, True]"
proof -
  have one: "setActiveSection (js ''contato'') sample_nav =
     sample_nav\<lparr>currentSection := js ''contato'',
       document_links := [(sample_links ! 0)\<lparr>active := False\<rparr>, (sample_links ! 1)\<lparr>active := True\<rparr>],
       classList_calls := 3\<rparr>"
    by (simp add: setActiveSection_def sample_nav_def NavigationManager_new_def sample_links_def
        set_active_class_def Let_def js_def upt_rec)
  have "observer_callback (replicate 4 (True, js ''contato'')) sample_nav =
          setActiveSection (js ''contato'') sample_nav"
    using C9_same_section [of sample_nav "js ''contato''" 3] by (simp add: eval_nat_numeral)
  with one show ?thesis
    by (simp add: sample_links_def)
qed

section \<open>Toggling and loading the theme\<close>

lemma theme_names:
  "truthy (get_property THEME_ICONS (js ''light''))"
  "truthy (get_property THEME_ICONS (js ''dark''))"
  "js ''light'' \<noteq> js ''dark''"
  "js ''dark'' \<noteq> js ''light''"
  by (simp_all add: get_property_def THEME_ICONS_def js_def)

lemma save_storage:
  "sessionStorage (save tm pg) =
     (if write_fails (sessionStorage pg) then sessionStorage pg
      else (sessionStorage pg)\<lparr>items := (items (sessionStorage pg))(THEME_STORAGE_KEY \<mapsto> currentTheme tm)\<rparr>)"
  "body_data_theme (save tm pg) = body_data_theme pg"
  "dispatched (save tm pg) = dispatched pg"
  "meta_theme_color (save tm pg) = meta_theme_color pg"
  by (simp_all add: save_def setItem_def)

lemma apply_theme_facts:
  "sessionStorage (apply_theme t pg) = sessionStorage pg"
  "body_data_theme (apply_theme t pg) = (if t = js ''dark'' then Some (js ''dark'') else None)"
  "dispatched (apply_theme t pg) = dispatched pg"
  "meta_theme_color (apply_theme t pg) = meta_theme_color pg"
  by (simp_all add: apply_theme_def)

lemma toggle_eq:
  "toggle (tm, pg) =
     (let t = (if currentTheme tm = js ''light'' then js ''dark'' else js ''light'');
          tm1 = tm\<lparr>currentTheme := t\<rparr>
      in (updateButton tm1, save tm1 (apply_theme t pg)))"
  by (simp add: toggle_def set_theme_def Let_def theme_names)

text \<open>
  Claim C2, as amended. When the toggle control was not found at construction,
  \<open>toggle()\<close> still flips \<open>currentTheme\<close> (light becomes dark, anything else becomes
  light), applies the new theme to the body and stores it (unless the storage write
  throws); only the update of the absent control is skipped.
\<close>

theorem C2_amended:
  assumes "button tm = None"
  shows "currentTheme (fst (toggle (tm, pg))) =
           (if currentTheme tm = js ''light'' then js ''dark'' else js ''light'') \<and>
         body_data_theme (snd (toggle (tm, pg))) =
           (if currentTheme tm = js ''light'' then Some (js ''dark'') else None) \<and>
         sessionStorage (snd (toggle (tm, pg))) =
           (if write_fails (sessionStorage pg) then sessionStorage pg
            else (sessionStorage pg)\<lparr>items := (items (sessionStorage pg))
                   (THEME_STORAGE_KEY \<mapsto> currentTheme (fst (toggle (tm, pg))))\<rparr>) \<and>
         button (fst (toggle (tm, pg))) = None"
  using assms
  by (simp add: toggle_eq Let_def updateButton_def save_storage apply_theme_facts theme_names)

lemma headless_theme_eq:
  "headless_theme = (\<lparr>currentTheme = js ''dark'', button = None\<rparr>, sample_page)"
  by (simp add: headless_theme_def ThemeManager_new_def ThemeManager_init_def THEME_DEFAULT_def)

text \<open>
  Claim C2 as first stated fails for the ThemeManager built on a page without toggle
  control: \<open>toggle()\<close> changes \<open>currentTheme\<close> from dark to light, adds the transition
  class to the body and stores the new theme.
\<close>

theorem C2_counterexample:
  "button (fst headless_theme) = None \<and>
   currentTheme (fst headless_theme) = js ''dark'' \<and>
   currentTheme (fst (toggle headless_theme)) = js ''light'' \<and>
   body_classes (snd headless_theme) = {} \<and>
   body_classes (snd (toggle headless_theme)) = {js ''theme-transition''} \<and>
   items (sessionStorage (snd headless_theme)) THEME_STORAGE_KEY = None \<and>
   items (sessionStorage (snd (toggle headless_theme))) THEME_STORAGE_KEY = Some (js ''light'')"
  by (simp add: headless_theme_eq toggle_eq Let_def updateButton_def save_storage apply_theme_def
      sample_page_def save_def setItem_def theme_names)

text \<open>Claim C2, as amended, at the same ThemeManager.\<close>

theorem C2_amended_witness:
  "button (fst headless_theme) = None \<and>
   currentTheme (fst (toggle headless_theme)) = js ''light'' \<and>
   body_data_theme (snd (toggle headless_theme)) = None \<and>
   button (fst (toggle headless_theme)) = None"
proof -
  have h: "button (fst headless_theme) = None"
    by (simp add: headless_theme_eq)
  have c: "currentTheme (fst headless_theme) = js ''dark''"
    by (simp add: headless_theme_eq)
  from C2_amended [OF h, of "snd headless_theme"] h c show ?thesis
    by (simp add: theme_names)
qed

text \<open>What does hold of the load: the default is taken when the read throws, when nothing
  is stored, and when the stored text is empty or is neither a theme nor a name inherited
  from \<open>Object.prototype\<close>.\<close>

lemma loadSavedTheme_default:
  assumes "read_fails (sessionStorage pg) \<or>
           items (sessionStorage pg) THEME_STORAGE_KEY = None \<or>
           (\<exists>s. items (sessionStorage pg) THEME_STORAGE_KEY = Some s \<and>
                (s = [] \<or> s \<notin> {js ''light'', js ''dark''} \<and> s \<notin> set Object_prototype_properties))"
  shows "currentTheme (loadSavedTheme tm pg) = THEME_DEFAULT"
  using assms
  by (auto simp add: loadSavedTheme_def getItem_def get_property_def THEME_ICONS_def
      split: option.splits)

text \<open>
  Claim C8 fails on the code. With \<open>constructor\<close> stored under the theme key, the
  lookup \<open>CONFIG.THEME.ICONS[saved]\<close> finds the function inherited from
  \<open>Object.prototype\<close>, and the constructed ThemeManager holds \<open>constructor\<close> as its
  current theme, which is neither of the two themes nor the default.
\<close>

theorem C8_inherited_key:
  "items (sessionStorage stale_page) THEME_STORAGE_KEY = Some (js ''constructor'') \<and>
   currentTheme (fst (ThemeManager_new (Some sample_button) stale_page)) = js ''constructor'' \<and>
   js ''constructor'' \<noteq> js ''light'' \<and> js ''constructor'' \<noteq> js ''dark''"
  by (simp add: stale_page_def sample_page_def ThemeManager_new_def ThemeManager_init_def
      loadSavedTheme_def getItem_def get_property_def THEME_ICONS_def Object_prototype_properties_def
      Let_def) (simp add: js_def)

section \<open>The integration wiring\<close>

lemma toggleTheme_missing:
  "bind_method ThemeManager_methods (js ''toggleTheme'') = Inl TypeError"
  by (simp add: bind_method_def ThemeManager_methods_def Object_prototype_properties_def js_def)

lemma setupComponentIntegration_throws:
  "themeManager app \<noteq> None \<Longrightarrow> navigationManager app \<noteq> None \<Longrightarrow>
   setupComponentIntegration app = Inl TypeError"
  by (simp add: setupComponentIntegration_def toggleTheme_missing)

lemma PortfolioApp_new_unwired:
  "\<not> isInitialized (fst (PortfolioApp_new found nm fv pg)) \<and>
   \<not> toggleTheme_wrapped (fst (PortfolioApp_new found nm fv pg)) \<and>
   themeManager (fst (PortfolioApp_new found nm fv pg)) = Some (fst (ThemeManager_new found pg)) \<and>
   snd (PortfolioApp_new found nm fv pg) = snd (ThemeManager_new found pg)"
  by (simp add: PortfolioApp_new_def initializeComponents_def handleInitializationError_def
      setupComponentIntegration_throws Let_def split: prod.splits)

lemma theme_toggle_click_silent:
  "dispatched (snd (theme_toggle_click s)) = dispatched (snd s) \<and>
   meta_theme_color (snd (theme_toggle_click s)) = meta_theme_color (snd s)"
  by (cases s)
    (simp add: theme_toggle_click_def toggle_def set_theme_def Let_def save_storage
      apply_theme_facts split: option.splits prod.splits)

lemma theme_shortcut_throws:
  "theme_shortcut original (PortfolioApp_new found nm fv pg) = Inl TypeError"
  using PortfolioApp_new_unwired [of found nm fv pg]
  by (cases "PortfolioApp_new found nm fv pg")
    (simp add: theme_shortcut_def toggleTheme_missing)

text \<open>
  Claim C1 fails on the code. The wiring reads \<open>toggleTheme\<close>, a method ThemeManager
  does not have, so \<open>setupComponentIntegration\<close> throws and nothing is wrapped. On the
  sample page the application ends uninitialised; a click on the toggle control changes
  the theme from dark to light, dispatches no event and leaves the \<open>theme-color\<close> meta
  element at its dark value, where \<open>onThemeChange\<close> would have dispatched
  \<open>portfolioThemeChange\<close> and set the light value.
\<close>

theorem C1_toggle_unwired:
  "isInitialized (fst sample_app) = False \<and>
   toggleTheme_wrapped (fst sample_app) = False \<and>
   map_option currentTheme (themeManager (fst sample_app)) = Some (js ''dark'') \<and>
   map_option currentTheme (themeManager (fst (theme_toggle_click sample_app))) = Some (js ''light'') \<and>
   body_data_theme (snd (theme_toggle_click sample_app)) = None \<and>
   dispatched (snd (theme_toggle_click sample_app)) = [] \<and>
   meta_theme_color (snd (theme_toggle_click sample_app)) = Some (js ''#1a1a1a'') \<and>
   dispatched (snd (onThemeChange (theme_toggle_click sample_app))) =
     [\<lparr>event_type = js ''portfolioThemeChange'', detail_theme = Some (js ''light'')\<rparr>] \<and>
   meta_theme_color (snd (onThemeChange (theme_toggle_click sample_app))) = Some (js ''#ffffff'')"
proof -
  have tm: "ThemeManager_new (Some sample_button) sample_page =
      (\<lparr>currentTheme = js ''dark'', button = Some sample_button\<rparr>,
       apply_theme (js ''dark'') sample_page)"
    by (simp add: ThemeManager_new_def ThemeManager_init_def loadSavedTheme_def getItem_def
        sample_page_def THEME_DEFAULT_def Let_def)
  have app: "themeManager (fst sample_app) =
               Some \<lparr>currentTheme = js ''dark'', button = Some sample_button\<rparr>"
    "snd sample_app = apply_theme (js ''dark'') sample_page"
    "\<not> isInitialized (fst sample_app)" "\<not> toggleTheme_wrapped (fst sample_app)"
    using PortfolioApp_new_unwired [of "Some sample_button" sample_nav "sample_form [] [] []" sample_page]
    by (simp_all add: sample_app_def tm)
  obtain a p where s: "sample_app = (a, p)" by (cases sample_app)
  from app [unfolded s fst_conv snd_conv]
  have a: "themeManager a = Some \<lparr>currentTheme = js ''dark'', button = Some sample_button\<rparr>"
    and p: "p = apply_theme (js ''dark'') sample_page"
    and f: "\<not> isInitialized a" "\<not> toggleTheme_wrapped a"
    by simp_all
  have click: "theme_toggle_click sample_app =
      (a\<lparr>themeManager := Some (updateButton \<lparr>currentTheme = js ''light'', button = Some sample_button\<rparr>)\<rparr>,
       save \<lparr>currentTheme = js ''light'', button = Some sample_button\<rparr>
         (apply_theme (js ''light'') p))"
    by (simp add: s theme_toggle_click_def a toggle_eq Let_def theme_names)
  show ?thesis
    unfolding click
    by (simp add: s a f p onThemeChange_def updateThemeSpecificElements_def Let_def save_storage
        apply_theme_facts updateButton_def sample_page_def theme_names)
qed

section \<open>The states the validator can reach\<close>

text \<open>
  \<open>fields_consistent\<close> holds after construction and is kept by every event, so it holds
  in every state the validator can reach.
\<close>

lemma fields_consistent_cong:
  "form_fields a = form_fields b \<Longrightarrow> fields_consistent a = fields_consistent b"
  by (simp add: fields_consistent_def)

lemma clearFieldError_on_keeps:
  "isValid (snd (clearFieldError_on fld)) = isValid fld"
  "element (snd (clearFieldError_on fld)) = None \<longleftrightarrow> element fld = None"
  by (simp_all add: clearFieldError_on_def Let_def split: option.splits)

lemma fields_consistent_clearFieldError:
  "fields_consistent fv \<Longrightarrow> fields_consistent (snd (clearFieldError f fv))"
  by (simp add: fields_consistent_def clearFieldError_def snd_on_field clearFieldError_on_keeps)

lemma fields_consistent_clear_each:
  "fields_consistent fv \<Longrightarrow> fields_consistent (snd (clear_each fs fv))"
proof (induction fs arbitrary: fv)
  case Nil
  then show ?case by simp
next
  case (Cons f fs)
  obtain r fv1 where eq: "clearFieldError f fv = (r, fv1)"
    by (cases "clearFieldError f fv")
  with fields_consistent_clearFieldError [OF Cons.prems, of f]
  have c: "fields_consistent fv1" by simp
  show ?case
  proof (cases r)
    case (Inl e)
    with eq c show ?thesis by simp
  next
    case (Inr u)
    with eq Cons.IH [OF c] show ?thesis by simp
  qed
qed

lemma reset_field_keeps:
  "element (reset_field fld) = None \<longleftrightarrow> element fld = None"
  "element fld = None \<Longrightarrow> isValid (reset_field fld) = isValid fld"
  "element fld \<noteq> None \<Longrightarrow> \<not> isValid (reset_field fld)"
  by (auto simp add: reset_field_def split: option.splits)

lemma fields_consistent_clearForm:
  assumes "fields_consistent fv"
  shows "fields_consistent (snd (clearForm fv))"
proof -
  have "fields_consistent
          (foldl (\<lambda>s fieldName.
                    s\<lparr>form_fields := (form_fields s)(fieldName := reset_field (form_fields s fieldName))\<rparr>)
             fv field_order)"
    using assms
    by (auto simp add: field_order_def fields_consistent_def reset_field_keeps)
  then show ?thesis
    by (simp add: clearForm_def clearAllErrors_def fields_consistent_clear_each)
qed

lemma form_fields_unchanged:
  "form_fields (showSuccessMessage fv) = form_fields fv"
  "form_fields (showErrorMessage msg fv) = form_fields fv"
  "form_fields (setSubmitButtonState b fv) = form_fields fv"
  "form_fields (simulateFormSubmission_begin fv) = form_fields fv"
  "form_fields (closeModal fv) = form_fields fv"
  "form_fields (focusFirstError fv) = form_fields fv"
  by (simp_all add: showSuccessMessage_def showErrorMessage_def setSubmitButtonState_def
      simulateFormSubmission_begin_def closeModal_def focusFirstError_def Let_def
      split: option.splits)

lemma fields_consistent_resume:
  assumes "fields_consistent fv"
  shows "fields_consistent (simulateFormSubmission_resume latency fv)"
proof -
  define tried where "tried =
    (case latency of Some e \<Rightarrow> (Inl e, fv) | None \<Rightarrow> clearForm (showSuccessMessage fv))"
  define caught where "caught =
    (case tried of (Inl e, fv1) \<Rightarrow> showErrorMessage MSG_SUBMIT_ERROR fv1 | (Inr u, fv1) \<Rightarrow> fv1)"
  have r: "simulateFormSubmission_resume latency fv =
             setSubmitButtonState False (caught\<lparr>isSubmitting := False\<rparr>)"
    by (simp add: simulateFormSubmission_resume_def tried_def caught_def Let_def)
  have "fields_consistent (showSuccessMessage fv)"
    using assms fields_consistent_cong [of "showSuccessMessage fv" fv]
    by (simp add: form_fields_unchanged)
  then have t: "fields_consistent (snd tried)"
    using assms by (simp add: tried_def fields_consistent_clearForm split: option.splits)
  obtain x fv1 where tried: "tried = (x, fv1)"
    by (cases tried)
  with t have "fields_consistent fv1" by simp
  then have "fields_consistent caught"
    using fields_consistent_cong [of "showErrorMessage MSG_SUBMIT_ERROR fv1" fv1]
    by (cases x) (simp_all add: caught_def tried form_fields_unchanged)
  then show ?thesis
    using fields_consistent_cong
      [of "setSubmitButtonState False (caught\<lparr>isSubmitting := False\<rparr>)" caught]
    by (simp add: r form_fields_unchanged)
qed

lemma fields_consistent_handleSubmit:
  assumes "fields_consistent fv"
  shows "fields_consistent (snd (handleSubmit fv))"
proof -
  let ?fv1 = "snd (validateAllFields fv)"
  have c: "fields_consistent ?fv1"
    using assms by (rule fields_consistent_validateAllFields)
  have "fields_consistent (focusFirstError ?fv1)"
    using c fields_consistent_cong [of "focusFirstError ?fv1" ?fv1]
    by (simp add: form_fields_unchanged)
  moreover have "fields_consistent (simulateFormSubmission_begin ?fv1)"
    using c fields_consistent_cong [of "simulateFormSubmission_begin ?fv1" ?fv1]
    by (simp add: form_fields_unchanged)
  ultimately show ?thesis
    using assms by (simp add: handleSubmit_eq)
qed

lemma fields_consistent_step:
  assumes "fields_consistent fv"
  shows "fields_consistent (form_step ev fv)"
proof (cases ev)
  case (Blur f)
  with assms show ?thesis
    by (simp add: form_step_def fields_consistent_validateField split: option.splits)
next
  case (Input f)
  with assms show ?thesis
    by (simp add: form_step_def fields_consistent_clearFieldError split: option.splits)
next
  case Submit
  with assms show ?thesis
    by (simp add: form_step_def fields_consistent_handleSubmit)
next
  case (LatencySettled latency)
  with assms show ?thesis
    by (simp add: form_step_def fields_consistent_resume)
next
  case ModalClosed
  with assms fields_consistent_cong [of "closeModal fv" fv] show ?thesis
    by (simp add: form_step_def form_fields_unchanged)
qed

lemma fields_consistent_run:
  "fields_consistent fv \<Longrightarrow> fields_consistent (run_form evs fv)"
  unfolding run_form_def
  by (induction evs arbitrary: fv) (simp_all add: fields_consistent_step)

lemma fields_consistent_reachable:
  "fields_consistent (run_form evs (FormValidator_new inputs errors submit dialog close_found))"
  by (rule fields_consistent_run) (rule fields_consistent_new)

end
